theory Spec2Isabelle
  imports Complex_Main "HOL-Library.AList" "HOL-Library.List_Lexorder" "HOL-Library.Multiset"
begin

section \<open>Python values\<close>

text \<open>
  A Python \<open>str\<close> is a sequence of Unicode code points. \<open>len\<close> counts code points, a
  slice \<open>s[:n]\<close> keeps the first \<open>n\<close> of them, and \<open>sorted\<close> compares strings code point
  by code point, a proper prefix coming first. A string is therefore a list of natural
  numbers, ordered lexicographically; \<open>str\<close> turns a literal into its code points.
\<close>

type_synonym pystr = "nat list"

definition str :: "string \<Rightarrow> pystr" where
  "str s = map of_char s"

section \<open>Activity items\<close>

text \<open>
  \<open>get_user_recent_activity\<close> builds one dict with fixed keys per submission and one per
  comment (src/crawler.py, lines 185-194 and 200-212). They are records here; a Python
  \<open>float\<close> is modelled by a real number, and no property below depends on rounding.
\<close>

record post =
  p_title :: pystr
  p_subreddit :: pystr
  p_created_utc :: real
  p_score :: int
  p_url :: pystr
  p_num_comments :: int

record comment =
  c_body :: pystr
  c_subreddit :: pystr
  c_created_utc :: real
  c_score :: int
  c_submission_title :: pystr

record activity =
  recent_posts :: "post list"
  recent_comments :: "comment list"

text \<open>The value \<open>{"posts": 0, "comments": 0}\<close> stored per community.\<close>

record counts =
  posts :: int
  comments :: int

section \<open>The activity aggregator\<close>

text \<open>
  \<open>subreddits\<close> is a Python set; \<open>subreddit_activity\<close> is a Python dict, which keeps its
  keys in insertion order: an association list in which a new key goes to the end
  (\<open>AList.update\<close>) and a value is changed in place (\<open>AList.map_entry\<close>).
\<close>

type_synonym activity_dict = "(pystr \<times> counts) list"

type_synonym aggregate = "pystr set \<times> activity_dict"

text \<open>
  The statements \<open>if subreddit not in subreddit_activity: subreddit_activity[subreddit] =
  {"posts": 0, "comments": 0}\<close> of both loops.
\<close>

definition ensure_entry :: "pystr \<Rightarrow> activity_dict \<Rightarrow> activity_dict" where
  "ensure_entry subreddit subreddit_activity =
     (if map_of subreddit_activity subreddit = None
      then AList.update subreddit \<lparr>posts = 0, comments = 0\<rparr> subreddit_activity
      else subreddit_activity)"

text \<open>
  What a dict holds for a community, read as \<open>subreddit_activity.get(k, {"posts": 0,
  "comments": 0})\<close>; it is used to state the properties of the loops only.
\<close>

definition counts_at :: "activity_dict \<Rightarrow> pystr \<Rightarrow> counts" where
  "counts_at subreddit_activity k =
     (case map_of subreddit_activity k of
        None \<Rightarrow> \<lparr>posts = 0, comments = 0\<rparr>
      | Some c \<Rightarrow> c)"

text \<open>The body of the loop over \<open>activity["recent_posts"]\<close> (src/crawler.py, lines 253-258).\<close>

definition count_post :: "post \<Rightarrow> aggregate \<Rightarrow> aggregate" where
  "count_post p st =
     (let subreddit = p_subreddit p
      in (insert subreddit (fst st),
          AList.map_entry subreddit (\<lambda>v. v\<lparr>posts := posts v + 1\<rparr>)
            (ensure_entry subreddit (snd st))))"

text \<open>The body of the loop over \<open>activity["recent_comments"]\<close> (lines 261-266).\<close>

definition count_comment :: "comment \<Rightarrow> aggregate \<Rightarrow> aggregate" where
  "count_comment c st =
     (let subreddit = c_subreddit c
      in (insert subreddit (fst st),
          AList.map_entry subreddit (\<lambda>v. v\<lparr>comments := comments v + 1\<rparr>)
            (ensure_entry subreddit (snd st))))"

fun collect_posts :: "post list \<Rightarrow> aggregate \<Rightarrow> aggregate" where
  "collect_posts [] st = st"
| "collect_posts (p # ps) st = collect_posts ps (count_post p st)"

fun collect_comments :: "comment list \<Rightarrow> aggregate \<Rightarrow> aggregate" where
  "collect_comments [] st = st"
| "collect_comments (c # cs) st = collect_comments cs (count_comment c st)"

text \<open>
  The aggregation of \<open>get_active_subreddits\<close> in src/crawler.py (lines 249-266): both
  loops, from the empty set and the empty dict.
\<close>

definition aggregate_activity :: "activity \<Rightarrow> aggregate" where
  "aggregate_activity a =
     collect_comments (recent_comments a) (collect_posts (recent_posts a) ({}, []))"

text \<open>
  What the aggregator produces from an activity: \<open>sorted(list(subreddits))\<close>, which is
  returned and saved as \<open>subreddits_list\<close>, and \<open>subreddit_activity\<close>, which is saved as
  \<open>detailed_activity\<close> (lines 269-279).
\<close>

definition active_subreddits :: "activity \<Rightarrow> pystr list \<times> activity_dict" where
  "active_subreddits a =
     (sorted_list_of_set (fst (aggregate_activity a)), snd (aggregate_activity a))"

text \<open>
  The variant in src/main.py (lines 143-154) keeps the set only. Its post dicts have no
  \<open>num_comments\<close>; the loops read \<open>subreddit\<close> alone.
\<close>

fun add_posts :: "post list \<Rightarrow> pystr set \<Rightarrow> pystr set" where
  "add_posts [] subreddits = subreddits"
| "add_posts (p # ps) subreddits = add_posts ps (insert (p_subreddit p) subreddits)"

fun add_comments :: "comment list \<Rightarrow> pystr set \<Rightarrow> pystr set" where
  "add_comments [] subreddits = subreddits"
| "add_comments (c # cs) subreddits = add_comments cs (insert (c_subreddit c) subreddits)"

definition active_subreddits_main :: "activity \<Rightarrow> pystr list" where
  "active_subreddits_main a =
     sorted_list_of_set (add_comments (recent_comments a) (add_posts (recent_posts a) {}))"

section \<open>Values, exceptions and the world\<close>

text \<open>
  The values that reach a JSON document: \<open>None\<close>, booleans, integers, floats, strings,
  lists and dicts with string keys (in insertion order).
\<close>

datatype pyval =
    PNone
  | PBool bool
  | PInt int
  | PFloat real
  | PStr pystr
  | PList "pyval list"
  | PDict "(pystr \<times> pyval) list"

type_synonym pydict = "(pystr \<times> pyval) list"

text \<open>Python's truth value of an object, as \<open>not x\<close> tests it.\<close>

fun truthy :: "pyval \<Rightarrow> bool" where
  "truthy PNone = False"
| "truthy (PBool b) = b"
| "truthy (PInt i) = (i \<noteq> 0)"
| "truthy (PFloat x) = (x \<noteq> 0)"
| "truthy (PStr s) = (s \<noteq> [])"
| "truthy (PList xs) = (xs \<noteq> [])"
| "truthy (PDict kvs) = (kvs \<noteq> [])"

text \<open>
  An exception is a class and a message (\<open>str(e)\<close>). Every class below derives from
  Python's \<open>Exception\<close>, so \<open>except Exception\<close> catches all of them.
\<close>

datatype exc_class = NetworkError | AuthorizationError | NotFoundError | OSError | ValueError | KeyError

datatype exn = Exn exc_class pystr

fun exn_str :: "exn \<Rightarrow> pystr" where
  "exn_str (Exn cls msg) = msg"

text \<open>
  \<open>secrets.json\<close>, by what reading it does to the credentials (src/crawler.py, lines
  68-74): the file does not exist; or it exists, and the \<open>try\<close> block stores these pairs
  into the dict, in this order, and then ends normally or with this exception. A JSON
  object is stored whole and no exception follows. \<open>open\<close> and \<open>json.load\<close> raise before
  any pair is stored; \<open>credentials.update\<close> on a value that is no object raises at the
  first item it rejects and keeps the pairs stored before it.
\<close>

datatype secrets_file = Absent | Present pydict "exn option"

text \<open>What a path holds after a write: the document, or the text of an interrupted dump.\<close>

datatype file_content = Document pyval | Truncated

text \<open>\<open>datetime.now()\<close>, by what the code reads from it: \<open>isoformat()\<close> and \<open>timestamp()\<close>.\<close>

record instant =
  isoformat :: pystr
  timestamp :: real

text \<open>
  The world outside the program: the environment variables, \<open>secrets.json\<close>, what the
  paths written so far hold, the path that \<open>pathlib\<close> gives for a name under a directory
  (\<open>str(directory / name)\<close>), which paths cannot be opened for writing, for which
  documents \<open>json.dump\<close> raises while it writes, the clock (the instant that the \<open>n\<close>-th
  call of \<open>datetime.now()\<close> returns, and the number of calls so far) and the lines
  printed to standard output. \<open>time.sleep\<close> changes nothing of it.
\<close>

record world =
  environ :: "pystr \<rightharpoonup> pystr"
  secrets_json :: secrets_file
  files :: "pystr \<rightharpoonup> file_content"
  joinpath :: "pystr \<Rightarrow> pystr \<Rightarrow> pystr"
  open_fails :: "pystr \<Rightarrow> exn option"
  dump_fails :: "pystr \<Rightarrow> pyval \<Rightarrow> exn option"
  clock :: "nat \<Rightarrow> instant"
  ticks :: nat
  stdout :: "pystr list"

definition print :: "pystr \<Rightarrow> world \<Rightarrow> world" where
  "print line w = w\<lparr>stdout := stdout w @ [line]\<rparr>"

section \<open>Credentials\<close>

text \<open>\<open>os.getenv(key)\<close> and \<open>os.getenv(key, default)\<close>.\<close>

definition getenv :: "world \<Rightarrow> pystr \<Rightarrow> pyval" where
  "getenv w key = (case environ w key of None \<Rightarrow> PNone | Some v \<Rightarrow> PStr v)"

definition getenv_default :: "world \<Rightarrow> pystr \<Rightarrow> pystr \<Rightarrow> pyval" where
  "getenv_default w key dflt = (case environ w key of None \<Rightarrow> PStr dflt | Some v \<Rightarrow> PStr v)"

text \<open>\<open>d.update(other)\<close>: every item of \<open>other\<close> is stored, in order.\<close>

fun dict_update :: "pydict \<Rightarrow> pydict \<Rightarrow> pydict" where
  "dict_update d [] = d"
| "dict_update d ((k, v) # other) = dict_update (AList.update k v d) other"

definition secrets_template :: pydict where
  "secrets_template =
     [(str ''client_id'', PStr (str ''your_reddit_client_id_here'')),
      (str ''client_secret'', PStr (str ''your_reddit_client_secret_here'')),
      (str ''user_agent'', PStr (str ''RedditCrawler/1.0 by YourUsername'')),
      (str ''username'', PStr (str ''your_reddit_username_optional'')),
      (str ''password'', PStr (str ''your_reddit_password_optional''))]"

text \<open>
  \<open>_create_secrets_template\<close> (src/crawler.py, lines 85-103). \<open>open\<close> is outside any
  \<open>try\<close>, so its exception leaves the function; the dump of the fixed template into
  the open file is taken to succeed.
\<close>

definition create_secrets_template :: "world \<Rightarrow> (exn + unit) \<times> world" where
  "create_secrets_template w =
     (if secrets_json w = Absent
      then (case open_fails w (str ''secrets.json'') of
              Some e \<Rightarrow> (Inl e, w)
            | None \<Rightarrow>
                (Inr (),
                 print (str ''created template secrets.json file. please update it with your credentials.'')
                   (w\<lparr>secrets_json := Present secrets_template None\<rparr>)))
      else (Inr (), w))"

text \<open>The dict that \<open>_load_credentials\<close> builds from the environment (lines 57-63).\<close>

definition env_credentials :: "world \<Rightarrow> pydict" where
  "env_credentials w =
     [(str ''client_id'', getenv w (str ''REDDIT_CLIENT_ID'')),
      (str ''client_secret'', getenv w (str ''REDDIT_CLIENT_SECRET'')),
      (str ''user_agent'', getenv_default w (str ''REDDIT_USER_AGENT'') (str ''RedditCrawler/1.0'')),
      (str ''username'', getenv w (str ''REDDIT_USERNAME'')),
      (str ''password'', getenv w (str ''REDDIT_PASSWORD''))]"

text \<open>
  Lines 66-74: the file is read only when the client id of the environment is missing or
  empty and the file exists. The pairs that the \<open>try\<close> block stores stay in the dict also
  when it ends with an exception, which is printed and dropped.
\<close>

definition merge_secrets :: "pydict \<Rightarrow> world \<Rightarrow> (exn + pydict) \<times> world" where
  "merge_secrets credentials w =
     (case map_of credentials (str ''client_id'') of
        None \<Rightarrow> (Inl (Exn KeyError (str ''client_id'')), w)
      | Some client_id \<Rightarrow>
          if \<not> truthy client_id \<and> secrets_json w \<noteq> Absent
          then (case secrets_json w of
                  Present stored None \<Rightarrow>
                    (Inr (dict_update credentials stored),
                     print (str ''loaded credentials from secrets.json'') w)
                | Present stored (Some e) \<Rightarrow>
                    (Inr (dict_update credentials stored),
                     print (str ''error loading secrets.json: '' @ exn_str e) w)
                | Absent \<Rightarrow> (Inr credentials, w))
          else (Inr credentials, w))"

text \<open>Lines 78-81: the template is created, then \<open>ValueError\<close> is raised.\<close>

definition credentials_not_found :: "world \<Rightarrow> (exn + pydict) \<times> world" where
  "credentials_not_found w =
     (case create_secrets_template w of
        (Inl e, w2) \<Rightarrow> (Inl e, w2)
      | (Inr u, w2) \<Rightarrow>
          (Inl (Exn ValueError
             (str ''reddit credentials not found. please set environment variables or create secrets.json file.'')),
           w2))"

text \<open>
  \<open>_load_credentials\<close> (lines 49-83). A subscript of a missing key would raise
  \<open>KeyError\<close>; \<open>raise ValueError\<close> is the fatal error.
\<close>

definition load_credentials :: "world \<Rightarrow> (exn + pydict) \<times> world" where
  "load_credentials w =
     (case merge_secrets (env_credentials w) w of
        (Inl e, w1) \<Rightarrow> (Inl e, w1)
      | (Inr credentials, w1) \<Rightarrow>
          (case map_of credentials (str ''client_id'') of
             None \<Rightarrow> (Inl (Exn KeyError (str ''client_id'')), w1)
           | Some client_id \<Rightarrow>
               if \<not> truthy client_id then credentials_not_found w1
               else (case map_of credentials (str ''client_secret'') of
                       None \<Rightarrow> (Inl (Exn KeyError (str ''client_secret'')), w1)
                     | Some client_secret \<Rightarrow>
                         if \<not> truthy client_secret then credentials_not_found w1
                         else (Inr credentials, w1))))"

section \<open>The platform client\<close>

text \<open>
  The objects of the wrapped API client, by the attributes the code reads. An attribute
  that \<open>hasattr\<close> may miss, or that may be \<open>None\<close>, is an option.
\<close>

record redditor_obj =
  r_name :: pystr
  r_created_utc :: real
  r_comment_karma :: int
  r_link_karma :: int
  r_verified :: "bool option"
  r_is_gold :: "bool option"

record submission =
  s_title :: pystr
  s_display_name :: pystr
  s_created_utc :: real
  s_score :: int
  s_permalink :: pystr
  s_num_comments :: int

record praw_comment =
  k_body :: pystr
  k_display_name :: pystr
  k_created_utc :: real
  k_score :: int
  k_submission_title :: pystr

record subreddit_obj =
  sr_display_name :: pystr
  sr_title :: pystr
  sr_subscribers :: int
  sr_created_utc :: real
  sr_public_description :: "pystr option"

record friend =
  f_name :: pystr
  f_date :: real

text \<open>
  The client answers a profile lookup with the user or an exception. A listing is lazy:
  it is the sequence of what each step of the iteration gives, an item or an exception
  (raised by the listing or by reading an attribute of the item), and the loop over it
  ends at the first exception.
\<close>

type_synonym 'a listing = "(exn + 'a) list"

record reddit_client =
  redditor :: "pystr \<Rightarrow> exn + redditor_obj"
  submissions_new :: "pystr \<Rightarrow> int \<Rightarrow> submission listing"
  comments_new :: "pystr \<Rightarrow> int \<Rightarrow> praw_comment listing"
  user_subreddits :: "subreddit_obj listing"
  user_friends :: "friend listing"

record crawler =
  output_dir :: pystr
  reddit :: reddit_client

text \<open>
  A \<open>for\<close> loop over a listing that appends one entry per item:
  the list built, or the first exception.
\<close>

fun gather :: "('a \<Rightarrow> 'b) \<Rightarrow> 'a listing \<Rightarrow> 'b list \<Rightarrow> exn + 'b list" where
  "gather f [] acc = Inr acc"
| "gather f (Inl e # rest) acc = Inl e"
| "gather f (Inr x # rest) acc = gather f rest (acc @ [f x])"

section \<open>The persistence sink\<close>

text \<open>
  \<open>_save_to_json\<close> (src/crawler.py, lines 105-127). The document is kept as a value; the
  text that \<open>json.dump\<close> writes is not modelled. The \<open>try\<close> block covers \<open>open\<close> and
  \<open>json.dump\<close>: an exception of either is printed and dropped. \<open>open\<close> with mode \<open>"w"\<close>
  empties the file, so a dump that raises leaves an interrupted text behind.
\<close>

definition save_to_json :: "crawler \<Rightarrow> pyval \<Rightarrow> pystr \<Rightarrow> world \<Rightarrow> world" where
  "save_to_json self data filename w =
     (let filepath = joinpath w (output_dir self) (filename @ str ''.json'');
          now = clock w (ticks w);
          w1 = w\<lparr>ticks := Suc (ticks w)\<rparr>;
          output_data = PDict [(str ''timestamp'', PStr (isoformat now)),
                               (str ''data_type'', PStr filename),
                               (str ''data'', data)]
      in case open_fails w1 filepath of
           Some e \<Rightarrow> print (str ''error saving '' @ filename @ str '': '' @ exn_str e) w1
         | None \<Rightarrow>
             (case dump_fails w1 filepath output_data of
                Some e \<Rightarrow>
                  print (str ''error saving '' @ filename @ str '': '' @ exn_str e)
                    (w1\<lparr>files := (files w1)(filepath \<mapsto> Truncated)\<rparr>)
              | None \<Rightarrow>
                  print (str ''saved '' @ filename @ str '' data to: '' @ filepath)
                    (w1\<lparr>files := (files w1)(filepath \<mapsto> Document output_data)\<rparr>)))"

section \<open>The fetch operations\<close>

definition opt_bool :: "bool option \<Rightarrow> pyval" where
  "opt_bool b = (case b of None \<Rightarrow> PNone | Some v \<Rightarrow> PBool v)"

text \<open>\<open>get_user_public_info\<close> (src/crawler.py, lines 129-162).\<close>

definition get_user_public_info :: "crawler \<Rightarrow> pystr \<Rightarrow> world \<Rightarrow> pydict \<times> world" where
  "get_user_public_info self username w =
     (case redditor (reddit self) username of
        Inr user \<Rightarrow>
          (let now = clock w (ticks w);
               w1 = w\<lparr>ticks := Suc (ticks w)\<rparr>;
               user_info =
                 [(str ''username'', PStr (r_name user)),
                  (str ''created_utc'', PFloat (r_created_utc user)),
                  (str ''comment_karma'', PInt (r_comment_karma user)),
                  (str ''link_karma'', PInt (r_link_karma user)),
                  (str ''is_verified'', opt_bool (r_verified user)),
                  (str ''has_premium'', opt_bool (r_is_gold user)),
                  (str ''account_age_days'',
                     PFloat ((timestamp now - r_created_utc user) / 86400))]
           in (user_info,
               save_to_json self (PDict user_info) (str ''user_public_info_'' @ username) w1))
      | Inl e \<Rightarrow>
          ([], print (str ''error fetching user info for '' @ username @ str '': '' @ exn_str e) w))"

text \<open>The entry appended per submission (lines 185-194) and per comment (lines 200-212).\<close>

definition post_entry :: "submission \<Rightarrow> post" where
  "post_entry submission =
     \<lparr>p_title = s_title submission,
      p_subreddit = s_display_name submission,
      p_created_utc = s_created_utc submission,
      p_score = s_score submission,
      p_url = str ''https://reddit.com'' @ s_permalink submission,
      p_num_comments = s_num_comments submission\<rparr>"

definition comment_entry :: "praw_comment \<Rightarrow> comment" where
  "comment_entry c =
     \<lparr>c_body = (if length (k_body c) > 200 then take 200 (k_body c) @ str ''...''
                else k_body c),
      c_subreddit = k_display_name c,
      c_created_utc = k_created_utc c,
      c_score = k_score c,
      c_submission_title = k_submission_title c\<rparr>"

definition post_json :: "post \<Rightarrow> pyval" where
  "post_json p =
     PDict [(str ''title'', PStr (p_title p)),
            (str ''subreddit'', PStr (p_subreddit p)),
            (str ''created_utc'', PFloat (p_created_utc p)),
            (str ''score'', PInt (p_score p)),
            (str ''url'', PStr (p_url p)),
            (str ''num_comments'', PInt (p_num_comments p))]"

definition comment_json :: "comment \<Rightarrow> pyval" where
  "comment_json c =
     PDict [(str ''body'', PStr (c_body c)),
            (str ''subreddit'', PStr (c_subreddit c)),
            (str ''created_utc'', PFloat (c_created_utc c)),
            (str ''score'', PInt (c_score c)),
            (str ''submission_title'', PStr (c_submission_title c))]"

text \<open>\<open>get_user_recent_activity\<close> (lines 164-233).\<close>

definition get_user_recent_activity ::
    "crawler \<Rightarrow> pystr \<Rightarrow> int \<Rightarrow> world \<Rightarrow> activity \<times> world" where
  "get_user_recent_activity self username limit w =
     (case gather post_entry (submissions_new (reddit self) username limit) [] of
        Inl e \<Rightarrow>
          (\<lparr>recent_posts = [], recent_comments = []\<rparr>,
           print (str ''error fetching activity for '' @ username @ str '': '' @ exn_str e) w)
      | Inr posts_list \<Rightarrow>
          (case gather comment_entry (comments_new (reddit self) username limit) [] of
             Inl e \<Rightarrow>
               (\<lparr>recent_posts = [], recent_comments = []\<rparr>,
                print (str ''error fetching activity for '' @ username @ str '': '' @ exn_str e) w)
           | Inr comments_list \<Rightarrow>
               (let activity_data =
                      PDict [(str ''username'', PStr username),
                             (str ''posts_count'', PInt (int (length posts_list))),
                             (str ''comments_count'', PInt (int (length comments_list))),
                             (str ''recent_posts'', PList (map post_json posts_list)),
                             (str ''recent_comments'', PList (map comment_json comments_list))]
                in (\<lparr>recent_posts = posts_list, recent_comments = comments_list\<rparr>,
                    save_to_json self activity_data (str ''user_recent_activity_'' @ username) w))))"

definition counts_json :: "counts \<Rightarrow> pyval" where
  "counts_json c = PDict [(str ''posts'', PInt (posts c)), (str ''comments'', PInt (comments c))]"

text \<open>
  \<open>get_active_subreddits\<close> (lines 235-279): the activity is fetched, aggregated, saved,
  and the sorted list is returned.
\<close>

definition get_active_subreddits ::
    "crawler \<Rightarrow> pystr \<Rightarrow> int \<Rightarrow> world \<Rightarrow> pystr list \<times> world" where
  "get_active_subreddits self username limit w =
     (let (activity, w1) = get_user_recent_activity self username limit w;
          st = aggregate_activity activity;
          active_subreddits_data =
            PDict [(str ''username'', PStr username),
                   (str ''total_active_subreddits'', PInt (int (card (fst st)))),
                   (str ''subreddits_list'', PList (map PStr (sorted_list_of_set (fst st)))),
                   (str ''detailed_activity'',
                      PDict (map (\<lambda>(k, c). (k, counts_json c)) (snd st)))]
      in (sorted_list_of_set (fst st),
          save_to_json self active_subreddits_data (str ''active_subreddits_'' @ username) w1))"

text \<open>The entry of \<open>detailed_subscriptions\<close> (lines 297-305).\<close>

definition subscription_entry :: "subreddit_obj \<Rightarrow> pyval" where
  "subscription_entry subreddit =
     PDict [(str ''name'', PStr (sr_display_name subreddit)),
            (str ''title'', PStr (sr_title subreddit)),
            (str ''subscribers'', PInt (sr_subscribers subreddit)),
            (str ''created_utc'', PFloat (sr_created_utc subreddit)),
            (str ''description'',
               (case sr_public_description subreddit of
                  None \<Rightarrow> PNone
                | Some d \<Rightarrow> if length d > 200 then PStr (take 200 d @ str ''...'') else PStr d))]"

text \<open>\<open>get_my_subscriptions\<close> (lines 281-323).\<close>

definition get_my_subscriptions :: "crawler \<Rightarrow> world \<Rightarrow> pystr list \<times> world" where
  "get_my_subscriptions self w =
     (case gather (\<lambda>s. (sr_display_name s, subscription_entry s)) (user_subreddits (reddit self)) [] of
        Inr entries \<Rightarrow>
          (let subreddits = map fst entries;
               subreddit_details = map snd entries;
               subscriptions_data =
                 PDict [(str ''total_subscriptions'', PInt (int (length subreddits))),
                        (str ''subscriptions_list'', PList (map PStr (sort subreddits))),
                        (str ''detailed_subscriptions'', PList subreddit_details)]
           in (sort subreddits, save_to_json self subscriptions_data (str ''my_subscriptions'') w))
      | Inl e \<Rightarrow>
          ([], print (str ''make sure you're authenticated with username/password'')
                 (print (str ''error fetching subscriptions: '' @ exn_str e) w)))"

text \<open>\<open>get_my_friends\<close> (lines 325-361).\<close>

definition get_my_friends :: "crawler \<Rightarrow> world \<Rightarrow> pystr list \<times> world" where
  "get_my_friends self w =
     (case gather (\<lambda>f. (f_name f, PDict [(str ''username'', PStr (f_name f)),
                                          (str ''date_added'', PFloat (f_date f))]))
             (user_friends (reddit self)) [] of
        Inr entries \<Rightarrow>
          (let friends = map fst entries;
               friends_details = map snd entries;
               friends_data =
                 PDict [(str ''total_friends'', PInt (int (length friends))),
                        (str ''friends_list'', PList (map PStr friends)),
                        (str ''detailed_friends'', PList friends_details)]
           in (friends, save_to_json self friends_data (str ''my_friends'') w))
      | Inl e \<Rightarrow> ([], print (str ''error fetching friends list: '' @ exn_str e) w))"


section \<open>Notions used to state the properties\<close>

text \<open>The exception that iterating a listing raises, if any, and the items before it.\<close>

fun first_exn :: "'a listing \<Rightarrow> exn option" where
  "first_exn [] = None"
| "first_exn (Inl e # rest) = Some e"
| "first_exn (Inr x # rest) = first_exn rest"

fun items :: "'a listing \<Rightarrow> 'a list" where
  "items [] = []"
| "items (Inl e # rest) = []"
| "items (Inr x # rest) = x # items rest"

text \<open>The value of a dict under a key is there and true in Python's sense.\<close>

definition truthy_at :: "pydict \<Rightarrow> pystr \<Rightarrow> bool" where
  "truthy_at d key = (case map_of d key of None \<Rightarrow> False | Some v \<Rightarrow> truthy v)"

text \<open>
  A required field is missing from both sources: the environment variable is unset or
  empty, and reading the secrets file, if there is one, leaves no non-empty value under
  the key (the value stored last counts).
\<close>

definition missing_everywhere :: "world \<Rightarrow> pystr \<Rightarrow> pystr \<Rightarrow> bool" where
  "missing_everywhere w var key =
     (\<not> truthy (getenv w var) \<and>
      (case secrets_json w of
         Present stored x \<Rightarrow>
           (case map_of (rev stored) key of None \<Rightarrow> True | Some v \<Rightarrow> \<not> truthy v)
       | Absent \<Rightarrow> True))"

section \<open>Example inputs\<close>

definition mk_post :: "pystr \<Rightarrow> post" where
  "mk_post s =
     \<lparr>p_title = str ''a title'', p_subreddit = s, p_created_utc = 0, p_score = 1,
      p_url = str ''https://reddit.com/r/x/1'', p_num_comments = 0\<rparr>"

definition mk_comment :: "pystr \<Rightarrow> comment" where
  "mk_comment s =
     \<lparr>c_body = str ''a body'', c_subreddit = s, c_created_utc = 0, c_score = 1,
      c_submission_title = str ''a title''\<rparr>"

definition mk_praw_comment :: "pystr \<Rightarrow> praw_comment" where
  "mk_praw_comment b =
     \<lparr>k_body = b, k_display_name = str ''go'', k_created_utc = 0, k_score = 1,
      k_submission_title = str ''a title''\<rparr>"

definition mk_submission :: "pystr \<Rightarrow> submission" where
  "mk_submission s =
     \<lparr>s_title = str ''a title'', s_display_name = s, s_created_utc = 0, s_score = 1,
      s_permalink = str ''/r/x/1'', s_num_comments = 0\<rparr>"

definition mk_world :: "(pystr \<rightharpoonup> pystr) \<Rightarrow> secrets_file \<Rightarrow> world" where
  "mk_world env secrets =
     \<lparr>environ = env, secrets_json = secrets, files = Map.empty,
      joinpath = (\<lambda>directory name. directory @ str ''/'' @ name),
      open_fails = (\<lambda>p. None), dump_fails = (\<lambda>p d. None),
      clock = (\<lambda>n. \<lparr>isoformat = str ''2024-01-01T00:00:00'', timestamp = 1704067200\<rparr>),
      ticks = 0, stdout = []\<rparr>"

definition example_secrets :: pydict where
  "example_secrets =
     [(str ''client_id'', PStr (str ''file_id'')),
      (str ''client_secret'', PStr (str ''file_secret''))]"

text \<open>A client whose every fetch is refused, and one whose comment listing fails.\<close>

definition failing_client :: reddit_client where
  "failing_client =
     \<lparr>redditor = (\<lambda>u. Inl (Exn NotFoundError (str ''received 404 HTTP response''))),
      submissions_new = (\<lambda>u n. [Inl (Exn NotFoundError (str ''received 404 HTTP response''))]),
      comments_new = (\<lambda>u n. [Inl (Exn NotFoundError (str ''received 404 HTTP response''))]),
      user_subreddits = [Inl (Exn AuthorizationError (str ''received 401 HTTP response''))],
      user_friends = [Inl (Exn AuthorizationError (str ''received 401 HTTP response''))]\<rparr>"

definition half_failing_client :: reddit_client where
  "half_failing_client =
     failing_client
       \<lparr>submissions_new := (\<lambda>u n. [Inr (mk_submission (str ''go''))]),
        comments_new := (\<lambda>u n. [Inr (mk_praw_comment (str ''a body'')),
                                  Inl (Exn NetworkError (str ''connection reset''))])\<rparr>"

definition commenting_client :: reddit_client where
  "commenting_client =
     failing_client
       \<lparr>submissions_new := (\<lambda>u n. [Inr (mk_submission (str ''go''))]),
        comments_new := (\<lambda>u n. [Inr (mk_praw_comment (replicate 250 97)),
                                  Inr (mk_praw_comment (replicate 150 97)),
                                  Inr (mk_praw_comment (replicate 200 97)),
                                  Inr (mk_praw_comment (replicate 201 97))])\<rparr>"

definition empty_client :: reddit_client where
  "empty_client =
     failing_client \<lparr>submissions_new := (\<lambda>u n. []), comments_new := (\<lambda>u n. [])\<rparr>"

section \<open>Strings\<close>

lemma str_inject: "str a = str b \<longleftrightarrow> a = b"
proof -
  have "inj (of_char :: char \<Rightarrow> nat)" by (rule injI) simp
  then show ?thesis by (simp add: str_def inj_map_eq_map)
qed

lemma str_eq_Nil: "str s = [] \<longleftrightarrow> s = []"
  by (simp add: str_def)

section \<open>One step of the aggregation loops\<close>

lemma ensure_entry_keys: "fst ` set (ensure_entry k d) = insert k (fst ` set d)"
  by (auto simp: ensure_entry_def AList.dom_update map_of_eq_None_iff)

lemma ensure_entry_distinct: "distinct (map fst d) \<Longrightarrow> distinct (map fst (ensure_entry k d))"
  by (simp add: ensure_entry_def AList.distinct_update)

lemma ensure_entry_lookup:
  "map_of (ensure_entry k d) k' =
     (if k' = k \<and> map_of d k = None then Some \<lparr>posts = 0, comments = 0\<rparr> else map_of d k')"
  by (simp add: ensure_entry_def AList.update_conv')

lemma ensure_entry_posts: "sum_list (map (posts \<circ> snd) (ensure_entry k d)) = sum_list (map (posts \<circ> snd) d)"
proof -
  have "sum_list (map (posts \<circ> snd) (AList.update k \<lparr>posts = 0, comments = 0\<rparr> d)) = sum_list (map (posts \<circ> snd) d)"
    if "map_of d k = None"
    using that by (induction d) (auto split: if_splits)
  then show ?thesis by (simp add: ensure_entry_def)
qed

lemma ensure_entry_comments: "sum_list (map (comments \<circ> snd) (ensure_entry k d)) = sum_list (map (comments \<circ> snd) d)"
proof -
  have "sum_list (map (comments \<circ> snd) (AList.update k \<lparr>posts = 0, comments = 0\<rparr> d)) = sum_list (map (comments \<circ> snd) d)"
    if "map_of d k = None"
    using that by (induction d) (auto split: if_splits)
  then show ?thesis by (simp add: ensure_entry_def)
qed

lemma map_entry_sum:
  "k \<in> fst ` set d \<Longrightarrow>
   sum_list (map (h \<circ> snd) (AList.map_entry k f d)) + h (the (map_of d k)) =
   sum_list (map (h \<circ> snd) d) + (h (f (the (map_of d k))) :: int)"
  by (induction d) auto

lemma count_post_fst: "fst (count_post p st) = insert (p_subreddit p) (fst st)"
  by (simp add: count_post_def Let_def)

lemma count_post_keys: "fst ` set (snd (count_post p st)) = insert (p_subreddit p) (fst ` set (snd st))"
  by (simp add: count_post_def Let_def AList.dom_map_entry ensure_entry_keys)

lemma count_post_distinct: "distinct (map fst (snd st)) \<Longrightarrow> distinct (map fst (snd (count_post p st)))"
  by (simp add: count_post_def Let_def AList.distinct_map_entry ensure_entry_distinct)

lemma count_post_lookup:
  "map_of (snd (count_post p st)) k =
     (if k = p_subreddit p
      then Some (case map_of (snd st) k of
                   None \<Rightarrow> \<lparr>posts = 1, comments = 0\<rparr>
                 | Some c \<Rightarrow> c\<lparr>posts := posts c + 1\<rparr>)
      else map_of (snd st) k)"
  by (auto simp: count_post_def Let_def AList.map_of_map_entry ensure_entry_lookup split: option.splits)

lemma count_post_posts:
  "sum_list (map (posts \<circ> snd) (snd (count_post p st))) = sum_list (map (posts \<circ> snd) (snd st)) + 1"
  using map_entry_sum [of "p_subreddit p" "ensure_entry (p_subreddit p) (snd st)" posts "\<lambda>c. c\<lparr>posts := posts c + 1\<rparr>"]
  by (simp add: count_post_def Let_def ensure_entry_keys ensure_entry_posts)

lemma count_post_comments:
  "sum_list (map (comments \<circ> snd) (snd (count_post p st))) = sum_list (map (comments \<circ> snd) (snd st))"
  using map_entry_sum [of "p_subreddit p" "ensure_entry (p_subreddit p) (snd st)" comments "\<lambda>c. c\<lparr>posts := posts c + 1\<rparr>"]
  by (simp add: count_post_def Let_def ensure_entry_keys ensure_entry_comments)

lemma count_comment_fst: "fst (count_comment c st) = insert (c_subreddit c) (fst st)"
  by (simp add: count_comment_def Let_def)

lemma count_comment_keys:
  "fst ` set (snd (count_comment c st)) = insert (c_subreddit c) (fst ` set (snd st))"
  by (simp add: count_comment_def Let_def AList.dom_map_entry ensure_entry_keys)

lemma count_comment_distinct:
  "distinct (map fst (snd st)) \<Longrightarrow> distinct (map fst (snd (count_comment c st)))"
  by (simp add: count_comment_def Let_def AList.distinct_map_entry ensure_entry_distinct)

lemma count_comment_lookup:
  "map_of (snd (count_comment c st)) k =
     (if k = c_subreddit c
      then Some (case map_of (snd st) k of
                   None \<Rightarrow> \<lparr>posts = 0, comments = 1\<rparr>
                 | Some v \<Rightarrow> v\<lparr>comments := comments v + 1\<rparr>)
      else map_of (snd st) k)"
  by (auto simp: count_comment_def Let_def AList.map_of_map_entry ensure_entry_lookup
           split: option.splits)

lemma count_comment_posts:
  "sum_list (map (posts \<circ> snd) (snd (count_comment c st))) = sum_list (map (posts \<circ> snd) (snd st))"
  using map_entry_sum [of "c_subreddit c" "ensure_entry (c_subreddit c) (snd st)" posts
      "\<lambda>v. v\<lparr>comments := comments v + 1\<rparr>"]
  by (simp add: count_comment_def Let_def ensure_entry_keys ensure_entry_posts)

lemma count_comment_comments:
  "sum_list (map (comments \<circ> snd) (snd (count_comment c st))) =
   sum_list (map (comments \<circ> snd) (snd st)) + 1"
  using map_entry_sum [of "c_subreddit c" "ensure_entry (c_subreddit c) (snd st)" comments
      "\<lambda>v. v\<lparr>comments := comments v + 1\<rparr>"]
  by (simp add: count_comment_def Let_def ensure_entry_keys ensure_entry_comments)

lemma count_post_counts_at:
  "counts_at (snd (count_post p st)) k =
     (if k = p_subreddit p
      then (counts_at (snd st) k)\<lparr>posts := posts (counts_at (snd st) k) + 1\<rparr>
      else counts_at (snd st) k)"
  by (simp add: counts_at_def count_post_lookup split: option.splits)

lemma count_comment_counts_at:
  "counts_at (snd (count_comment c st)) k =
     (if k = c_subreddit c
      then (counts_at (snd st) k)\<lparr>comments := comments (counts_at (snd st) k) + 1\<rparr>
      else counts_at (snd st) k)"
  by (simp add: counts_at_def count_comment_lookup split: option.splits)

lemma lookup_counts_at:
  "map_of d k = (if k \<in> fst ` set d then Some (counts_at d k) else None)"
  by (auto simp: counts_at_def map_of_eq_None_iff split: option.splits)

lemma counts_at_Nil: "counts_at [] k = \<lparr>posts = 0, comments = 0\<rparr>"
  by (simp add: counts_at_def)

section \<open>The aggregation loops\<close>

lemma collect_posts_fst: "fst (collect_posts ps st) = fst st \<union> p_subreddit ` set ps"
  by (induction ps arbitrary: st) (auto simp: count_post_fst)

lemma collect_posts_keys:
  "fst ` set (snd (collect_posts ps st)) = fst ` set (snd st) \<union> p_subreddit ` set ps"
  by (induction ps arbitrary: st) (simp_all add: count_post_keys)

lemma collect_posts_distinct:
  "distinct (map fst (snd st)) \<Longrightarrow> distinct (map fst (snd (collect_posts ps st)))"
  by (induction ps arbitrary: st) (simp_all add: count_post_distinct)

lemma collect_posts_counts_at:
  "counts_at (snd (collect_posts ps st)) k =
     (counts_at (snd st) k)
       \<lparr>posts := posts (counts_at (snd st) k) + int (length (filter (\<lambda>p. p_subreddit p = k) ps))\<rparr>"
  by (induction ps arbitrary: st) (simp_all add: count_post_counts_at)

lemma collect_posts_posts:
  "sum_list (map (posts \<circ> snd) (snd (collect_posts ps st))) =
   sum_list (map (posts \<circ> snd) (snd st)) + int (length ps)"
  by (induction ps arbitrary: st) (simp_all add: count_post_posts)

lemma collect_posts_comments:
  "sum_list (map (comments \<circ> snd) (snd (collect_posts ps st))) =
   sum_list (map (comments \<circ> snd) (snd st))"
  by (induction ps arbitrary: st) (simp_all add: count_post_comments)

lemma collect_comments_fst: "fst (collect_comments cs st) = fst st \<union> c_subreddit ` set cs"
  by (induction cs arbitrary: st) (auto simp: count_comment_fst)

lemma collect_comments_keys:
  "fst ` set (snd (collect_comments cs st)) = fst ` set (snd st) \<union> c_subreddit ` set cs"
  by (induction cs arbitrary: st) (simp_all add: count_comment_keys)

lemma collect_comments_distinct:
  "distinct (map fst (snd st)) \<Longrightarrow> distinct (map fst (snd (collect_comments cs st)))"
  by (induction cs arbitrary: st) (simp_all add: count_comment_distinct)

lemma collect_comments_counts_at:
  "counts_at (snd (collect_comments cs st)) k =
     (counts_at (snd st) k)
       \<lparr>comments := comments (counts_at (snd st) k)
          + int (length (filter (\<lambda>c. c_subreddit c = k) cs))\<rparr>"
  by (induction cs arbitrary: st) (simp_all add: count_comment_counts_at)

lemma collect_comments_posts:
  "sum_list (map (posts \<circ> snd) (snd (collect_comments cs st))) =
   sum_list (map (posts \<circ> snd) (snd st))"
  by (induction cs arbitrary: st) (simp_all add: count_comment_posts)

lemma collect_comments_comments:
  "sum_list (map (comments \<circ> snd) (snd (collect_comments cs st))) =
   sum_list (map (comments \<circ> snd) (snd st)) + int (length cs)"
  by (induction cs arbitrary: st) (simp_all add: count_comment_comments)

lemma add_posts_eq: "add_posts ps s = s \<union> p_subreddit ` set ps"
  by (induction ps arbitrary: s) auto

lemma add_comments_eq: "add_comments cs s = s \<union> c_subreddit ` set cs"
  by (induction cs arbitrary: s) auto

section \<open>The aggregate of an activity\<close>

lemma active_subreddits_fst:
  "fst (active_subreddits a) =
     sorted_list_of_set (p_subreddit ` set (recent_posts a) \<union> c_subreddit ` set (recent_comments a))"
  by (simp add: active_subreddits_def aggregate_activity_def collect_comments_fst collect_posts_fst)

lemma active_subreddits_keys:
  "fst ` set (snd (active_subreddits a)) =
     p_subreddit ` set (recent_posts a) \<union> c_subreddit ` set (recent_comments a)"
  by (simp add: active_subreddits_def aggregate_activity_def collect_comments_keys collect_posts_keys)

lemma active_subreddits_distinct: "distinct (map fst (snd (active_subreddits a)))"
  by (simp add: active_subreddits_def aggregate_activity_def collect_comments_distinct collect_posts_distinct)

lemma active_subreddits_counts_at:
  "counts_at (snd (active_subreddits a)) k =
     \<lparr>posts = int (length (filter (\<lambda>p. p_subreddit p = k) (recent_posts a))),
      comments = int (length (filter (\<lambda>c. c_subreddit c = k) (recent_comments a)))\<rparr>"
  by (simp add: active_subreddits_def aggregate_activity_def collect_comments_counts_at collect_posts_counts_at
      counts_at_Nil)

lemma active_subreddits_lookup:
  "map_of (snd (active_subreddits a)) k =
     (if k \<in> p_subreddit ` set (recent_posts a) \<union> c_subreddit ` set (recent_comments a)
      then Some \<lparr>posts = int (length (filter (\<lambda>p. p_subreddit p = k) (recent_posts a))),
                 comments = int (length (filter (\<lambda>c. c_subreddit c = k) (recent_comments a)))\<rparr>
      else None)"
  using lookup_counts_at [of "snd (active_subreddits a)" k]
  by (simp only: active_subreddits_keys active_subreddits_counts_at)

lemma swapped_lookup:
  "map_of (snd (collect_posts ps (collect_comments cs ({}, [])))) k =
     (if k \<in> p_subreddit ` set ps \<union> c_subreddit ` set cs
      then Some \<lparr>posts = int (length (filter (\<lambda>p. p_subreddit p = k) ps)),
                 comments = int (length (filter (\<lambda>c. c_subreddit c = k) cs))\<rparr>
      else None)"
proof -
  let ?d = "snd (collect_posts ps (collect_comments cs ({}, [])))"
  have keys: "fst ` set ?d = p_subreddit ` set ps \<union> c_subreddit ` set cs"
    by (auto simp: collect_comments_keys collect_posts_keys)
  have at: "counts_at ?d k =
      \<lparr>posts = int (length (filter (\<lambda>p. p_subreddit p = k) ps)),
       comments = int (length (filter (\<lambda>c. c_subreddit c = k) cs))\<rparr>"
    by (simp add: collect_comments_counts_at collect_posts_counts_at counts_at_Nil)
  show ?thesis
    using lookup_counts_at [of ?d k] by (simp only: keys at)
qed

lemma get_active_subreddits_fst:
  "fst (get_active_subreddits self username limit w) =
     fst (active_subreddits (fst (get_user_recent_activity self username limit w)))"
  by (simp add: get_active_subreddits_def active_subreddits_def Let_def split: prod.splits)

lemma entries_sum_keys:
  "distinct (map fst d) \<Longrightarrow>
   sum_list (map (h \<circ> snd) d) = (\<Sum>k \<in> fst ` set d. (h (the (map_of d k)) :: int))"
proof (induction d)
  case Nil
  then show ?case by simp
next
  case (Cons e d)
  have "(\<Sum>k \<in> fst ` set d. h (the (map_of (e # d) k))) = (\<Sum>k \<in> fst ` set d. h (the (map_of d k)))"
  proof (rule sum.cong [OF refl])
    fix k assume "k \<in> fst ` set d"
    moreover have "fst e \<notin> fst ` set d" using Cons.prems by simp
    ultimately have "k \<noteq> fst e" by blast
    then show "h (the (map_of (e # d) k)) = h (the (map_of d k))"
      by (cases e) simp
  qed
  with Cons show ?case by simp
qed

lemma distinct_one_entry:
  "distinct (map fst d) \<Longrightarrow> k \<in> fst ` set d \<Longrightarrow> length (filter (\<lambda>e. fst e = k) d) = 1"
  by (induction d) (auto simp: filter_empty_conv image_iff)

lemma filter_length_mset:
  "mset xs = mset ys \<Longrightarrow> length (filter P xs) = length (filter P ys)"
proof -
  assume "mset xs = mset ys"
  then have "mset (filter P xs) = mset (filter P ys)" by simp
  then show ?thesis by (rule mset_eq_length)
qed

lemma active_subreddits_example:
  "active_subreddits \<lparr>recent_posts = [mk_post (str ''go''), mk_post (str ''rust'')],
                      recent_comments = [mk_comment (str ''go'')]\<rparr>
   = ([str ''go'', str ''rust''],
      [(str ''go'', \<lparr>posts = 1, comments = 1\<rparr>), (str ''rust'', \<lparr>posts = 1, comments = 0\<rparr>)])"
  by code_simp

text \<open>
  The dict keeps the order in which the communities were first met, so the order of its
  entries follows the order of the items; the mapping from community to counts does not.
\<close>

lemma activity_dict_insertion_order:
  "snd (active_subreddits \<lparr>recent_posts = [mk_post (str ''rust''), mk_post (str ''go'')],
                           recent_comments = [mk_comment (str ''go'')]\<rparr>)
   = [(str ''rust'', \<lparr>posts = 1, comments = 0\<rparr>), (str ''go'', \<lparr>posts = 1, comments = 1\<rparr>)]"
  by code_simp

section \<open>Properties of the activity aggregator\<close>

text \<open>
  Claim C1. For every pair of finite post and comment sequences, the list that
  \<open>get_active_subreddits\<close> returns is the union of the \<open>subreddit\<close> fields of all posts
  and all comments, sorted ascending, without duplicates: it is the sorted list of that
  union, strictly increasing. The variant of src/main.py returns the same list, and the
  operation returns this list for the activity it fetched.
\<close>

theorem active_subreddits_sorted_union:
  "fst (active_subreddits a) =
     sorted_list_of_set (p_subreddit ` set (recent_posts a) \<union> c_subreddit ` set (recent_comments a))
   \<and> set (fst (active_subreddits a)) =
     p_subreddit ` set (recent_posts a) \<union> c_subreddit ` set (recent_comments a)
   \<and> sorted_wrt (<) (fst (active_subreddits a))
   \<and> active_subreddits_main a = fst (active_subreddits a)
   \<and> fst (get_active_subreddits self username limit w) =
     fst (active_subreddits (fst (get_user_recent_activity self username limit w)))"
  by (simp add: active_subreddits_fst active_subreddits_main_def add_posts_eq add_comments_eq
      get_active_subreddits_fst)

text \<open>
  Claim C2. For every input, the post counts of all communities add up to the number of
  posts, and the comment counts to the number of comments: summed over the entries of
  the dict, and summed over the returned communities.
\<close>

theorem activity_counts_total:
  "sum_list (map (posts \<circ> snd) (snd (active_subreddits a))) = int (length (recent_posts a))
   \<and> sum_list (map (comments \<circ> snd) (snd (active_subreddits a))) = int (length (recent_comments a))
   \<and> (\<Sum>c \<leftarrow> fst (active_subreddits a). posts (the (map_of (snd (active_subreddits a)) c)))
       = int (length (recent_posts a))
   \<and> (\<Sum>c \<leftarrow> fst (active_subreddits a). comments (the (map_of (snd (active_subreddits a)) c)))
       = int (length (recent_comments a))"
proof -
  let ?d = "snd (active_subreddits a)" and ?l = "fst (active_subreddits a)"
  have p: "sum_list (map (posts \<circ> snd) ?d) = int (length (recent_posts a))"
    by (simp add: active_subreddits_def aggregate_activity_def collect_comments_posts collect_posts_posts)
  have c: "sum_list (map (comments \<circ> snd) ?d) = int (length (recent_comments a))"
    by (simp add: active_subreddits_def aggregate_activity_def collect_comments_comments collect_posts_comments)
  have l: "distinct ?l" "set ?l = fst ` set ?d"
    by (simp_all add: active_subreddits_fst active_subreddits_keys)
  have "(\<Sum>c \<leftarrow> ?l. h (the (map_of ?d c))) = sum_list (map (h \<circ> snd) ?d)" for h :: "counts \<Rightarrow> int"
    using entries_sum_keys [OF active_subreddits_distinct, of h a] l
    by (simp add: sum_list_distinct_conv_sum_set)
  with p c show ?thesis by simp
qed

text \<open>
  Claim C3. Every community that appears in a post or a comment has exactly one entry in
  the dict; its post count is the number of posts of that community, its comment count
  the number of comments of that community, and neither is negative.
\<close>

theorem community_entry_counts:
  assumes "k \<in> p_subreddit ` set (recent_posts a) \<union> c_subreddit ` set (recent_comments a)"
  shows "length (filter (\<lambda>e. fst e = k) (snd (active_subreddits a))) = 1
    \<and> map_of (snd (active_subreddits a)) k =
        Some \<lparr>posts = int (length (filter (\<lambda>p. p_subreddit p = k) (recent_posts a))),
              comments = int (length (filter (\<lambda>c. c_subreddit c = k) (recent_comments a)))\<rparr>
    \<and> 0 \<le> posts (the (map_of (snd (active_subreddits a)) k))
    \<and> 0 \<le> comments (the (map_of (snd (active_subreddits a)) k))"
proof -
  have "k \<in> fst ` set (snd (active_subreddits a))"
    using assms by (simp only: active_subreddits_keys)
  then have "length (filter (\<lambda>e. fst e = k) (snd (active_subreddits a))) = 1"
    by (rule distinct_one_entry [OF active_subreddits_distinct])
  moreover have "map_of (snd (active_subreddits a)) k =
        Some \<lparr>posts = int (length (filter (\<lambda>p. p_subreddit p = k) (recent_posts a))),
              comments = int (length (filter (\<lambda>c. c_subreddit c = k) (recent_comments a)))\<rparr>"
    using assms by (simp only: active_subreddits_lookup if_True)
  ultimately show ?thesis by simp
qed

text \<open>
  The example of a community met in posts and in comments: one entry, both counts set.
\<close>

theorem community_entry_counts_witness:
  "str ''go'' \<in> p_subreddit ` set [mk_post (str ''go''), mk_post (str ''rust'')] \<union> c_subreddit ` set [mk_comment (str ''go'')]
   \<and> length (filter (\<lambda>e. fst e = str ''go'')
        (snd (active_subreddits \<lparr>recent_posts = [mk_post (str ''go''), mk_post (str ''rust'')],
                                 recent_comments = [mk_comment (str ''go'')]\<rparr>))) = 1
   \<and> map_of (snd (active_subreddits \<lparr>recent_posts = [mk_post (str ''go''), mk_post (str ''rust'')],
                                 recent_comments = [mk_comment (str ''go'')]\<rparr>)) (str ''go'')
      = Some \<lparr>posts = 1, comments = 1\<rparr>"
  using community_entry_counts [of "str ''go''" "\<lparr>recent_posts = [mk_post (str ''go''), mk_post (str ''rust'')],
                                 recent_comments = [mk_comment (str ''go'')]\<rparr>"]
  by (simp add: mk_post_def mk_comment_def str_def)

text \<open>
  Claim C4. The result does not depend on the order of the items: two activities whose
  posts are rearrangements of each other, and whose comments are, give the same sorted
  list and the same mapping from community to counts (the same entries); and running the
  loop over the comments before the loop over the posts gives that list and that mapping
  too.
\<close>

theorem active_subreddits_order_independent:
  assumes "mset (recent_posts a) = mset (recent_posts b)"
      and "mset (recent_comments a) = mset (recent_comments b)"
  shows "fst (active_subreddits a) = fst (active_subreddits b)
    \<and> map_of (snd (active_subreddits a)) = map_of (snd (active_subreddits b))
    \<and> set (snd (active_subreddits a)) = set (snd (active_subreddits b))
    \<and> active_subreddits_main a = active_subreddits_main b
    \<and> sorted_list_of_set (fst (collect_posts (recent_posts a) (collect_comments (recent_comments a) ({}, []))))
        = fst (active_subreddits a)
    \<and> map_of (snd (collect_posts (recent_posts a) (collect_comments (recent_comments a) ({}, []))))
        = map_of (snd (active_subreddits a))"
proof -
  have sp: "set (recent_posts a) = set (recent_posts b)"
    using assms(1) by (rule mset_eq_setD)
  have sc: "set (recent_comments a) = set (recent_comments b)"
    using assms(2) by (rule mset_eq_setD)
  have l: "fst (active_subreddits a) = fst (active_subreddits b)"
    by (simp only: active_subreddits_fst sp sc)
  have m: "map_of (snd (active_subreddits a)) = map_of (snd (active_subreddits b))"
  proof
    fix k
    show "map_of (snd (active_subreddits a)) k = map_of (snd (active_subreddits b)) k"
      by (simp only: active_subreddits_lookup sp sc
          filter_length_mset [OF assms(1)] filter_length_mset [OF assms(2)])
  qed
  have s: "set (snd (active_subreddits a)) = set (snd (active_subreddits b))"
    using m by (simp add: map_of_inject_set active_subreddits_distinct)
  have n: "active_subreddits_main a = active_subreddits_main b"
    by (simp only: active_subreddits_main_def add_posts_eq add_comments_eq sp sc)
  have o: "sorted_list_of_set (fst (collect_posts (recent_posts a) (collect_comments (recent_comments a) ({}, []))))
        = fst (active_subreddits a)"
    by (simp add: active_subreddits_fst collect_posts_fst collect_comments_fst Un_commute)
  have q: "map_of (snd (collect_posts (recent_posts a) (collect_comments (recent_comments a) ({}, []))))
        = map_of (snd (active_subreddits a))"
  proof
    fix k
    show "map_of (snd (collect_posts (recent_posts a) (collect_comments (recent_comments a) ({}, [])))) k
        = map_of (snd (active_subreddits a)) k"
      by (simp only: swapped_lookup active_subreddits_lookup)
  qed
  from l m s n o q show ?thesis by simp
qed

theorem active_subreddits_order_independent_witness:
  "mset [mk_post (str ''go''), mk_post (str ''rust'')] = mset [mk_post (str ''rust''), mk_post (str ''go'')]
   \<and> mset [mk_comment (str ''go'')] = mset [mk_comment (str ''go'')]
   \<and> fst (active_subreddits \<lparr>recent_posts = [mk_post (str ''go''), mk_post (str ''rust'')],
                              recent_comments = [mk_comment (str ''go'')]\<rparr>)
     = fst (active_subreddits \<lparr>recent_posts = [mk_post (str ''rust''), mk_post (str ''go'')],
                              recent_comments = [mk_comment (str ''go'')]\<rparr>)
   \<and> map_of (snd (active_subreddits \<lparr>recent_posts = [mk_post (str ''go''), mk_post (str ''rust'')],
                              recent_comments = [mk_comment (str ''go'')]\<rparr>))
     = map_of (snd (active_subreddits \<lparr>recent_posts = [mk_post (str ''rust''), mk_post (str ''go'')],
                              recent_comments = [mk_comment (str ''go'')]\<rparr>))"
  using active_subreddits_order_independent [of "\<lparr>recent_posts = [mk_post (str ''go''), mk_post (str ''rust'')],
                              recent_comments = [mk_comment (str ''go'')]\<rparr>"
      "\<lparr>recent_posts = [mk_post (str ''rust''), mk_post (str ''go'')],
                              recent_comments = [mk_comment (str ''go'')]\<rparr>"]
  by simp

text \<open>
  Claim C5. With no posts and no comments the aggregator gives the empty list and the
  empty dict; the operation, whose listings are both empty, returns the empty list.
\<close>

theorem active_subreddits_empty:
  "active_subreddits \<lparr>recent_posts = [], recent_comments = []\<rparr> = ([], [])
   \<and> active_subreddits_main \<lparr>recent_posts = [], recent_comments = []\<rparr> = []
   \<and> (submissions_new (reddit self) username limit = []
        \<and> comments_new (reddit self) username limit = [] \<longrightarrow>
      fst (get_user_recent_activity self username limit w) = \<lparr>recent_posts = [], recent_comments = []\<rparr>
      \<and> fst (get_active_subreddits self username limit w) = [])"
  by (simp add: get_active_subreddits_fst get_user_recent_activity_def active_subreddits_def
      aggregate_activity_def active_subreddits_main_def)

theorem active_subreddits_empty_witness:
  "submissions_new empty_client (str ''someone'') 100 = []
   \<and> comments_new empty_client (str ''someone'') 100 = []
   \<and> fst (get_active_subreddits \<lparr>output_dir = str ''reddit_data'', reddit = empty_client\<rparr>
        (str ''someone'') 100 (mk_world Map.empty Absent)) = []"
  using active_subreddits_empty [of "\<lparr>output_dir = str ''reddit_data'', reddit = empty_client\<rparr>" "str ''someone''" 100
      "mk_world Map.empty Absent"]
  by (simp add: empty_client_def failing_client_def)

section \<open>Fetching a listing\<close>

lemma gather_first_exn: "first_exn xs = Some e \<Longrightarrow> gather f xs acc = Inl e"
  by (induction f xs acc rule: gather.induct) simp_all

lemma gather_items: "first_exn xs = None \<Longrightarrow> gather f xs acc = Inr (acc @ map f (items xs))"
  by (induction f xs acc rule: gather.induct) simp_all

lemma gather_no_exn: "first_exn xs = None \<Longrightarrow> \<exists>ys. gather f xs acc = Inr ys"
  by (simp add: gather_items)

lemma aggregate_empty: "aggregate_activity \<lparr>recent_posts = [], recent_comments = []\<rparr> = ({}, [])"
  by (simp add: aggregate_activity_def)

text \<open>
  When neither listing raises, the operation returns one entry per fetched item, in
  order, and saves the same entries.
\<close>

lemma get_user_recent_activity_fetched:
  assumes "first_exn (submissions_new (reddit self) username limit) = None"
      and "first_exn (comments_new (reddit self) username limit) = None"
  shows "get_user_recent_activity self username limit w =
     (\<lparr>recent_posts = map post_entry (items (submissions_new (reddit self) username limit)),
       recent_comments = map comment_entry (items (comments_new (reddit self) username limit))\<rparr>,
      save_to_json self
        (PDict [(str ''username'', PStr username),
                (str ''posts_count'',
                   PInt (int (length (items (submissions_new (reddit self) username limit))))),
                (str ''comments_count'',
                   PInt (int (length (items (comments_new (reddit self) username limit))))),
                (str ''recent_posts'',
                   PList (map post_json
                     (map post_entry (items (submissions_new (reddit self) username limit))))),
                (str ''recent_comments'',
                   PList (map comment_json
                     (map comment_entry (items (comments_new (reddit self) username limit)))))])
        (str ''user_recent_activity_'' @ username) w)"
  by (simp add: get_user_recent_activity_def gather_items [OF assms(1)] gather_items [OF assms(2)]
      Let_def)

lemma comment_entry_body:
  "c_body (comment_entry c) =
     (if length (k_body c) > 200 then take 200 (k_body c) @ str ''...'' else k_body c)"
  by (simp add: comment_entry_def)

section \<open>The stored comment body\<close>

text \<open>
  Claim comment_body_truncation_examples. When \<open>get_user_recent_activity\<close> fetches its listings without an exception,
  it returns one comment entry per fetched comment, in order, and saves these entries.
  The body stored for a fetched comment of 250 characters is its first 200 characters
  followed by the three characters \<open>...\<close>, 203 characters in all; the body stored for a
  comment of 150 characters is the body itself.
\<close>

theorem comment_body_truncation_examples:
  "(first_exn (submissions_new (reddit self) username limit) = None
    \<and> first_exn (comments_new (reddit self) username limit) = None \<longrightarrow>
      length (recent_comments (fst (get_user_recent_activity self username limit w)))
        = length (items (comments_new (reddit self) username limit))
      \<and> snd (get_user_recent_activity self username limit w) =
          save_to_json self
            (PDict [(str ''username'', PStr username),
                    (str ''posts_count'',
                       PInt (int (length (recent_posts (fst (get_user_recent_activity self username limit w)))))),
                    (str ''comments_count'',
                       PInt (int (length (recent_comments (fst (get_user_recent_activity self username limit w)))))),
                    (str ''recent_posts'',
                       PList (map post_json (recent_posts (fst (get_user_recent_activity self username limit w))))),
                    (str ''recent_comments'',
                       PList (map comment_json (recent_comments (fst (get_user_recent_activity self username limit w)))))])
            (str ''user_recent_activity_'' @ username) w)
   \<and> (first_exn (submissions_new (reddit self) username limit) = None
      \<and> first_exn (comments_new (reddit self) username limit) = None
      \<and> i < length (items (comments_new (reddit self) username limit)) \<longrightarrow>
        (length (k_body (items (comments_new (reddit self) username limit) ! i)) = 250 \<longrightarrow>
           c_body (recent_comments (fst (get_user_recent_activity self username limit w)) ! i)
             = take 200 (k_body (items (comments_new (reddit self) username limit) ! i)) @ str ''...''
           \<and> length (c_body (recent_comments (fst (get_user_recent_activity self username limit w)) ! i))
             = 203)
      \<and> (length (k_body (items (comments_new (reddit self) username limit) ! i)) = 150 \<longrightarrow>
           c_body (recent_comments (fst (get_user_recent_activity self username limit w)) ! i)
             = k_body (items (comments_new (reddit self) username limit) ! i)))
   \<and> (length (k_body c) = 250 \<longrightarrow>
        c_body (comment_entry c) = take 200 (k_body c) @ str ''...''
        \<and> length (take 200 (k_body c)) = 200 \<and> length (str ''...'') = 3)
   \<and> (length (k_body c) = 150 \<longrightarrow> c_body (comment_entry c) = k_body c)"
proof -
  have f: "get_user_recent_activity self username limit w =
     (\<lparr>recent_posts = map post_entry (items (submissions_new (reddit self) username limit)),
       recent_comments = map comment_entry (items (comments_new (reddit self) username limit))\<rparr>,
      save_to_json self
        (PDict [(str ''username'', PStr username),
                (str ''posts_count'',
                   PInt (int (length (items (submissions_new (reddit self) username limit))))),
                (str ''comments_count'',
                   PInt (int (length (items (comments_new (reddit self) username limit))))),
                (str ''recent_posts'',
                   PList (map post_json
                     (map post_entry (items (submissions_new (reddit self) username limit))))),
                (str ''recent_comments'',
                   PList (map comment_json
                     (map comment_entry (items (comments_new (reddit self) username limit)))))])
        (str ''user_recent_activity_'' @ username) w)"
    if "first_exn (submissions_new (reddit self) username limit) = None"
      and "first_exn (comments_new (reddit self) username limit) = None"
    using that by (rule get_user_recent_activity_fetched)
  show ?thesis
    by (auto simp: f comment_entry_body str_def)
qed

theorem comment_body_truncation_examples_witness:
  "first_exn (submissions_new commenting_client (str ''someone'') 25) = None
   \<and> first_exn (comments_new commenting_client (str ''someone'') 25) = None
   \<and> length (recent_comments (fst (get_user_recent_activity
        \<lparr>output_dir = str ''reddit_data'', reddit = commenting_client\<rparr>
        (str ''someone'') 25 (mk_world Map.empty Absent)))) = 4
   \<and> length (k_body (items (comments_new commenting_client (str ''someone'') 25) ! 0)) = 250
   \<and> c_body (recent_comments (fst (get_user_recent_activity
        \<lparr>output_dir = str ''reddit_data'', reddit = commenting_client\<rparr>
        (str ''someone'') 25 (mk_world Map.empty Absent))) ! 0) = replicate 200 97 @ str ''...''
   \<and> length (k_body (items (comments_new commenting_client (str ''someone'') 25) ! 1)) = 150
   \<and> c_body (recent_comments (fst (get_user_recent_activity
        \<lparr>output_dir = str ''reddit_data'', reddit = commenting_client\<rparr>
        (str ''someone'') 25 (mk_world Map.empty Absent))) ! 1) = replicate 150 97
   \<and> length (k_body (mk_praw_comment (replicate 250 97))) = 250
   \<and> c_body (comment_entry (mk_praw_comment (replicate 250 97))) = replicate 200 97 @ str ''...''
   \<and> length (k_body (mk_praw_comment (replicate 150 97))) = 150
   \<and> c_body (comment_entry (mk_praw_comment (replicate 150 97))) = replicate 150 97"
  using comment_body_truncation_examples [of "\<lparr>output_dir = str ''reddit_data'', reddit = commenting_client\<rparr>" "str ''someone''" 25
            "mk_world Map.empty Absent" 0 "mk_praw_comment (replicate 250 97)"]
        comment_body_truncation_examples [of "\<lparr>output_dir = str ''reddit_data'', reddit = commenting_client\<rparr>" "str ''someone''" 25
            "mk_world Map.empty Absent" 1 "mk_praw_comment (replicate 150 97)"]
  by (simp add: commenting_client_def failing_client_def mk_praw_comment_def)

text \<open>
  Claim comment_body_truncation_bound. In what \<open>get_user_recent_activity\<close> returns and saves, the body is cut only
  when it is longer than 200 characters: a stored body that differs from the fetched
  one comes from a body of more than 200 characters, such a body is stored as its first
  200 characters and \<open>...\<close>, a body of exactly 200 characters is stored as it is, and no
  stored body is longer than 203 characters.
\<close>

theorem comment_body_truncation_bound:
  "(first_exn (submissions_new (reddit self) username limit) = None
    \<and> first_exn (comments_new (reddit self) username limit) = None \<longrightarrow>
      length (recent_comments (fst (get_user_recent_activity self username limit w)))
        = length (items (comments_new (reddit self) username limit))
      \<and> snd (get_user_recent_activity self username limit w) =
          save_to_json self
            (PDict [(str ''username'', PStr username),
                    (str ''posts_count'',
                       PInt (int (length (recent_posts (fst (get_user_recent_activity self username limit w)))))),
                    (str ''comments_count'',
                       PInt (int (length (recent_comments (fst (get_user_recent_activity self username limit w)))))),
                    (str ''recent_posts'',
                       PList (map post_json (recent_posts (fst (get_user_recent_activity self username limit w))))),
                    (str ''recent_comments'',
                       PList (map comment_json (recent_comments (fst (get_user_recent_activity self username limit w)))))])
            (str ''user_recent_activity_'' @ username) w)
   \<and> (first_exn (submissions_new (reddit self) username limit) = None
      \<and> first_exn (comments_new (reddit self) username limit) = None
      \<and> i < length (items (comments_new (reddit self) username limit)) \<longrightarrow>
        (c_body (recent_comments (fst (get_user_recent_activity self username limit w)) ! i)
            \<noteq> k_body (items (comments_new (reddit self) username limit) ! i) \<longrightarrow>
           length (k_body (items (comments_new (reddit self) username limit) ! i)) > 200)
      \<and> (length (k_body (items (comments_new (reddit self) username limit) ! i)) > 200 \<longrightarrow>
           c_body (recent_comments (fst (get_user_recent_activity self username limit w)) ! i)
             = take 200 (k_body (items (comments_new (reddit self) username limit) ! i)) @ str ''...'')
      \<and> (length (k_body (items (comments_new (reddit self) username limit) ! i)) = 200 \<longrightarrow>
           c_body (recent_comments (fst (get_user_recent_activity self username limit w)) ! i)
             = k_body (items (comments_new (reddit self) username limit) ! i))
      \<and> length (c_body (recent_comments (fst (get_user_recent_activity self username limit w)) ! i))
           \<le> 203)
   \<and> (c_body (comment_entry c) \<noteq> k_body c \<longrightarrow> length (k_body c) > 200)
   \<and> (length (k_body c) > 200 \<longrightarrow> c_body (comment_entry c) = take 200 (k_body c) @ str ''...'')
   \<and> (length (k_body c) = 200 \<longrightarrow> c_body (comment_entry c) = k_body c)
   \<and> length (c_body (comment_entry c)) \<le> 203"
proof -
  have f: "get_user_recent_activity self username limit w =
     (\<lparr>recent_posts = map post_entry (items (submissions_new (reddit self) username limit)),
       recent_comments = map comment_entry (items (comments_new (reddit self) username limit))\<rparr>,
      save_to_json self
        (PDict [(str ''username'', PStr username),
                (str ''posts_count'',
                   PInt (int (length (items (submissions_new (reddit self) username limit))))),
                (str ''comments_count'',
                   PInt (int (length (items (comments_new (reddit self) username limit))))),
                (str ''recent_posts'',
                   PList (map post_json
                     (map post_entry (items (submissions_new (reddit self) username limit))))),
                (str ''recent_comments'',
                   PList (map comment_json
                     (map comment_entry (items (comments_new (reddit self) username limit)))))])
        (str ''user_recent_activity_'' @ username) w)"
    if "first_exn (submissions_new (reddit self) username limit) = None"
      and "first_exn (comments_new (reddit self) username limit) = None"
    using that by (rule get_user_recent_activity_fetched)
  show ?thesis
    by (auto simp: f comment_entry_body str_def)
qed

theorem comment_body_truncation_bound_witness:
  "first_exn (submissions_new commenting_client (str ''someone'') 25) = None
   \<and> first_exn (comments_new commenting_client (str ''someone'') 25) = None
   \<and> length (k_body (items (comments_new commenting_client (str ''someone'') 25) ! 2)) = 200
   \<and> c_body (recent_comments (fst (get_user_recent_activity
        \<lparr>output_dir = str ''reddit_data'', reddit = commenting_client\<rparr>
        (str ''someone'') 25 (mk_world Map.empty Absent))) ! 2) = replicate 200 97
   \<and> length (k_body (items (comments_new commenting_client (str ''someone'') 25) ! 3)) > 200
   \<and> c_body (recent_comments (fst (get_user_recent_activity
        \<lparr>output_dir = str ''reddit_data'', reddit = commenting_client\<rparr>
        (str ''someone'') 25 (mk_world Map.empty Absent))) ! 3) = replicate 200 97 @ str ''...''
   \<and> c_body (recent_comments (fst (get_user_recent_activity
        \<lparr>output_dir = str ''reddit_data'', reddit = commenting_client\<rparr>
        (str ''someone'') 25 (mk_world Map.empty Absent))) ! 3)
      \<noteq> k_body (items (comments_new commenting_client (str ''someone'') 25) ! 3)
   \<and> c_body (comment_entry (mk_praw_comment (replicate 200 97))) = replicate 200 97
   \<and> c_body (comment_entry (mk_praw_comment (replicate 201 97))) = replicate 200 97 @ str ''...''
   \<and> c_body (comment_entry (mk_praw_comment (replicate 201 97))) \<noteq> k_body (mk_praw_comment (replicate 201 97))"
proof -
  let ?self = "\<lparr>output_dir = str ''reddit_data'', reddit = commenting_client\<rparr>"
  let ?w = "mk_world Map.empty Absent"
  let ?a = "mk_praw_comment (replicate 200 97)" and ?b = "mk_praw_comment (replicate 201 97)"
  let ?stored = "recent_comments (fst (get_user_recent_activity ?self (str ''someone'') 25 ?w))"
  let ?fetched = "items (comments_new commenting_client (str ''someone'') 25)"
  have fe: "first_exn (submissions_new commenting_client (str ''someone'') 25) = None"
      "first_exn (comments_new commenting_client (str ''someone'') 25) = None"
    by (simp_all add: commenting_client_def failing_client_def)
  have it: "?fetched = [mk_praw_comment (replicate 250 97), mk_praw_comment (replicate 150 97), ?a, ?b]"
    by (simp add: commenting_client_def failing_client_def)
  have la: "length (k_body ?a) = 200" and lb: "length (k_body ?b) > 200"
    by (simp_all add: mk_praw_comment_def)
  have s2: "c_body (?stored ! 2) = replicate 200 97"
    using comment_body_truncation_bound [of ?self "str ''someone''" 25 ?w 2 ?a] fe la
    by (simp add: it) (simp add: mk_praw_comment_def)
  have s3: "c_body (?stored ! 3) = replicate 200 97 @ str ''...''"
    using comment_body_truncation_bound [of ?self "str ''someone''" 25 ?w 3 ?b] fe lb
    by (simp add: it) (simp add: mk_praw_comment_def)
  have a: "c_body (comment_entry ?a) = replicate 200 97"
    using comment_body_truncation_bound [of ?self "str ''someone''" 25 ?w 2 ?a] la
    by (simp add: mk_praw_comment_def)
  have b: "c_body (comment_entry ?b) = replicate 200 97 @ str ''...''"
    using comment_body_truncation_bound [of ?self "str ''someone''" 25 ?w 3 ?b] lb
    by (simp add: mk_praw_comment_def)
  have nl: "length (replicate 200 (97::nat) @ str ''...'') \<noteq> length (k_body ?b)"
    by (simp add: str_def mk_praw_comment_def)
  have ne: "replicate 200 97 @ str ''...'' \<noteq> k_body ?b"
  proof
    assume "replicate 200 97 @ str ''...'' = k_body ?b"
    then have "length (replicate 200 (97::nat) @ str ''...'') = length (k_body ?b)"
      by (rule arg_cong)
    with nl show False by (rule notE)
  qed
  show ?thesis
    using fe la lb s2 s3 a b ne by (simp add: it)
qed

section \<open>The persistence sink\<close>

text \<open>
  What a successful write leaves at the path: an object with the keys \<open>timestamp\<close>,
  \<open>data_type\<close> and \<open>data\<close>, in this order, the payload under \<open>data\<close>. A write that
  fails prints the error, and leaves the path as it was when \<open>open\<close> raised.
\<close>

lemma save_to_json_document:
  "open_fails w (joinpath w (output_dir self) (filename @ str ''.json'')) = None \<Longrightarrow>
   dump_fails w (joinpath w (output_dir self) (filename @ str ''.json''))
     (PDict [(str ''timestamp'', PStr (isoformat (clock w (ticks w)))),
             (str ''data_type'', PStr filename),
             (str ''data'', data)]) = None \<Longrightarrow>
   files (save_to_json self data filename w) (joinpath w (output_dir self) (filename @ str ''.json''))
     = Some (Document (PDict [(str ''timestamp'', PStr (isoformat (clock w (ticks w)))),
                              (str ''data_type'', PStr filename),
                              (str ''data'', data)]))"
  by (simp add: save_to_json_def Let_def print_def)

lemma save_to_json_open_fails:
  "open_fails w (joinpath w (output_dir self) (filename @ str ''.json'')) = Some e \<Longrightarrow>
   save_to_json self data filename w =
     print (str ''error saving '' @ filename @ str '': '' @ exn_str e) (w\<lparr>ticks := Suc (ticks w)\<rparr>)"
  by (simp add: save_to_json_def Let_def)

lemma save_to_json_dump_fails:
  "open_fails w (joinpath w (output_dir self) (filename @ str ''.json'')) = None \<Longrightarrow>
   dump_fails w (joinpath w (output_dir self) (filename @ str ''.json''))
     (PDict [(str ''timestamp'', PStr (isoformat (clock w (ticks w)))),
             (str ''data_type'', PStr filename),
             (str ''data'', data)]) = Some e \<Longrightarrow>
   files (save_to_json self data filename w) (joinpath w (output_dir self) (filename @ str ''.json''))
     = Some Truncated
   \<and> stdout (save_to_json self data filename w) =
       stdout w @ [str ''error saving '' @ filename @ str '': '' @ exn_str e]"
  by (simp add: save_to_json_def Let_def print_def)

section \<open>Failing fetches\<close>

text \<open>
  Claim fetch_failure_gives_empty_result. When the fetch under an operation raises, the operation prints a message and
  returns the empty result of its shape, and the world is otherwise unchanged: the empty
  dict for the profile lookup, the dict of two empty lists for the activity, the empty
  list for subscriptions and friends. The aggregation after a failed activity fetch goes
  on: \<open>get_active_subreddits\<close> returns the empty list and saves its document.
\<close>

theorem fetch_failure_gives_empty_result:
  "(redditor (reddit self) username = Inl e \<longrightarrow>
      get_user_public_info self username w =
        ([], print (str ''error fetching user info for '' @ username @ str '': '' @ exn_str e) w))
   \<and> (first_exn (submissions_new (reddit self) username limit) = Some e
        \<or> first_exn (submissions_new (reddit self) username limit) = None
          \<and> first_exn (comments_new (reddit self) username limit) = Some e \<longrightarrow>
      get_user_recent_activity self username limit w =
        (\<lparr>recent_posts = [], recent_comments = []\<rparr>,
         print (str ''error fetching activity for '' @ username @ str '': '' @ exn_str e) w)
      \<and> get_active_subreddits self username limit w =
        ([], save_to_json self
               (PDict [(str ''username'', PStr username),
                       (str ''total_active_subreddits'', PInt 0),
                       (str ''subreddits_list'', PList []),
                       (str ''detailed_activity'', PDict [])])
               (str ''active_subreddits_'' @ username)
               (print (str ''error fetching activity for '' @ username @ str '': '' @ exn_str e) w)))
   \<and> (first_exn (user_subreddits (reddit self)) = Some e \<longrightarrow>
      get_my_subscriptions self w =
        ([], print (str ''make sure you're authenticated with username/password'')
               (print (str ''error fetching subscriptions: '' @ exn_str e) w)))
   \<and> (first_exn (user_friends (reddit self)) = Some e \<longrightarrow>
      get_my_friends self w = ([], print (str ''error fetching friends list: '' @ exn_str e) w))"
proof -
  have info: "get_user_public_info self username w =
        ([], print (str ''error fetching user info for '' @ username @ str '': '' @ exn_str e) w)"
    if "redditor (reddit self) username = Inl e"
    using that by (simp add: get_user_public_info_def)
  have act: "get_user_recent_activity self username limit w =
        (\<lparr>recent_posts = [], recent_comments = []\<rparr>,
         print (str ''error fetching activity for '' @ username @ str '': '' @ exn_str e) w)"
    if "first_exn (submissions_new (reddit self) username limit) = Some e
        \<or> first_exn (submissions_new (reddit self) username limit) = None
          \<and> first_exn (comments_new (reddit self) username limit) = Some e"
    using that
  proof
    assume "first_exn (submissions_new (reddit self) username limit) = Some e"
    then show ?thesis
      by (simp add: get_user_recent_activity_def gather_first_exn)
  next
    assume h: "first_exn (submissions_new (reddit self) username limit) = None
          \<and> first_exn (comments_new (reddit self) username limit) = Some e"
    then obtain ps where "gather post_entry (submissions_new (reddit self) username limit) [] = Inr ps"
      using gather_no_exn by blast
    with h show ?thesis
      by (simp add: get_user_recent_activity_def gather_first_exn)
  qed
  have subs: "get_my_subscriptions self w =
        ([], print (str ''make sure you're authenticated with username/password'')
               (print (str ''error fetching subscriptions: '' @ exn_str e) w))"
    if "first_exn (user_subreddits (reddit self)) = Some e"
    using that by (simp add: get_my_subscriptions_def gather_first_exn)
  have friends: "get_my_friends self w = ([], print (str ''error fetching friends list: '' @ exn_str e) w)"
    if "first_exn (user_friends (reddit self)) = Some e"
    using that by (simp add: get_my_friends_def gather_first_exn)
  have agg: "get_active_subreddits self username limit w =
        ([], save_to_json self
               (PDict [(str ''username'', PStr username),
                       (str ''total_active_subreddits'', PInt 0),
                       (str ''subreddits_list'', PList []),
                       (str ''detailed_activity'', PDict [])])
               (str ''active_subreddits_'' @ username)
               (print (str ''error fetching activity for '' @ username @ str '': '' @ exn_str e) w))"
    if "first_exn (submissions_new (reddit self) username limit) = Some e
        \<or> first_exn (submissions_new (reddit self) username limit) = None
          \<and> first_exn (comments_new (reddit self) username limit) = Some e"
    by (simp add: get_active_subreddits_def act [OF that] aggregate_empty)
  from info act subs friends agg show ?thesis by blast
qed

theorem fetch_failure_gives_empty_result_witness:
  "redditor failing_client (str ''someone'') = Inl (Exn NotFoundError (str ''received 404 HTTP response''))
   \<and> get_user_public_info \<lparr>output_dir = str ''reddit_data'', reddit = failing_client\<rparr>
        (str ''someone'') (mk_world Map.empty Absent)
      = ([], (mk_world Map.empty Absent)
               \<lparr>stdout := [str ''error fetching user info for '' @ str ''someone'' @ str '': ''
                            @ str ''received 404 HTTP response'']\<rparr>)
   \<and> first_exn (submissions_new failing_client (str ''someone'') 100)
      = Some (Exn NotFoundError (str ''received 404 HTTP response''))
   \<and> fst (get_user_recent_activity \<lparr>output_dir = str ''reddit_data'', reddit = failing_client\<rparr>
        (str ''someone'') 100 (mk_world Map.empty Absent))
      = \<lparr>recent_posts = [], recent_comments = []\<rparr>
   \<and> first_exn (submissions_new half_failing_client (str ''someone'') 100) = None
   \<and> first_exn (comments_new half_failing_client (str ''someone'') 100)
      = Some (Exn NetworkError (str ''connection reset''))
   \<and> get_user_recent_activity \<lparr>output_dir = str ''reddit_data'', reddit = half_failing_client\<rparr>
        (str ''someone'') 100 (mk_world Map.empty Absent)
      = (\<lparr>recent_posts = [], recent_comments = []\<rparr>,
         (mk_world Map.empty Absent)
           \<lparr>stdout := [str ''error fetching activity for '' @ str ''someone'' @ str '': ''
                        @ str ''connection reset'']\<rparr>)
   \<and> fst (get_active_subreddits \<lparr>output_dir = str ''reddit_data'', reddit = half_failing_client\<rparr>
        (str ''someone'') 100 (mk_world Map.empty Absent)) = []
   \<and> files (snd (get_active_subreddits \<lparr>output_dir = str ''reddit_data'', reddit = half_failing_client\<rparr>
        (str ''someone'') 100 (mk_world Map.empty Absent)))
        (str ''reddit_data'' @ str ''/'' @ (str ''active_subreddits_'' @ str ''someone'') @ str ''.json'')
      = Some (Document
          (PDict [(str ''timestamp'', PStr (str ''2024-01-01T00:00:00'')),
                  (str ''data_type'', PStr (str ''active_subreddits_'' @ str ''someone'')),
                  (str ''data'',
                     PDict [(str ''username'', PStr (str ''someone'')),
                            (str ''total_active_subreddits'', PInt 0),
                            (str ''subreddits_list'', PList []),
                            (str ''detailed_activity'', PDict [])])]))
   \<and> first_exn (user_subreddits failing_client)
      = Some (Exn AuthorizationError (str ''received 401 HTTP response''))
   \<and> fst (get_my_subscriptions \<lparr>output_dir = str ''reddit_data'', reddit = failing_client\<rparr>
        (mk_world Map.empty Absent)) = []
   \<and> first_exn (user_friends failing_client)
      = Some (Exn AuthorizationError (str ''received 401 HTTP response''))
   \<and> fst (get_my_friends \<lparr>output_dir = str ''reddit_data'', reddit = failing_client\<rparr>
        (mk_world Map.empty Absent)) = []"
  using fetch_failure_gives_empty_result [of "\<lparr>output_dir = str ''reddit_data'', reddit = failing_client\<rparr>" "str ''someone''"
              "Exn NotFoundError (str ''received 404 HTTP response'')" "mk_world Map.empty Absent" 100]
        fetch_failure_gives_empty_result [of "\<lparr>output_dir = str ''reddit_data'', reddit = half_failing_client\<rparr>" "str ''someone''"
              "Exn NetworkError (str ''connection reset'')" "mk_world Map.empty Absent" 100]
        fetch_failure_gives_empty_result [of "\<lparr>output_dir = str ''reddit_data'', reddit = failing_client\<rparr>" "str ''someone''"
              "Exn AuthorizationError (str ''received 401 HTTP response'')" "mk_world Map.empty Absent" 100]
  by (simp add: failing_client_def half_failing_client_def mk_world_def print_def save_to_json_def
      mk_submission_def mk_praw_comment_def Let_def)

section \<open>Loading the credentials\<close>

lemma dict_update_lookup:
  "map_of (dict_update d stored) k =
     (case map_of (rev stored) k of Some v \<Rightarrow> Some v | None \<Rightarrow> map_of d k)"
proof (induction stored arbitrary: d)
  case Nil
  then show ?case by simp
next
  case (Cons e stored)
  obtain k' v' where e: "e = (k', v')" by (cases e)
  show ?case
    using Cons.IH [of "AList.update k' v' d"]
    by (simp add: e AList.update_conv' map_add_def split: option.splits)
qed

lemma env_client_id:
  "map_of (env_credentials w) (str ''client_id'') = Some (getenv w (str ''REDDIT_CLIENT_ID''))"
  by (simp add: env_credentials_def)

lemma env_client_secret:
  "map_of (env_credentials w) (str ''client_secret'') = Some (getenv w (str ''REDDIT_CLIENT_SECRET''))"
  by (simp add: env_credentials_def str_inject)

lemma merged_client_id:
  "\<exists>v. map_of (dict_update (env_credentials w) stored) (str ''client_id'') = Some v"
  by (simp add: dict_update_lookup env_client_id split: option.splits)

lemma merged_client_secret:
  "\<exists>v. map_of (dict_update (env_credentials w) stored) (str ''client_secret'') = Some v"
  by (simp add: dict_update_lookup env_client_secret split: option.splits)

lemma print_keeps:
  "secrets_json (print line w) = secrets_json w" "open_fails (print line w) = open_fails w"
  "environ (print line w) = environ w"
  by (simp_all add: print_def)

lemma not_found_fails:
  "isl (fst (credentials_not_found w))
   \<and> secrets_json (snd (credentials_not_found w)) =
       (if secrets_json w = Absent \<and> open_fails w (str ''secrets.json'') = None
        then Present secrets_template None else secrets_json w)
   \<and> (secrets_json w \<noteq> Absent \<or> open_fails w (str ''secrets.json'') = None \<longrightarrow>
        fst (credentials_not_found w) =
          Inl (Exn ValueError
            (str ''reddit credentials not found. please set environment variables or create secrets.json file.'')))"
  by (auto simp: credentials_not_found_def create_secrets_template_def print_def
      split: option.splits)

lemma load_env_id_set:
  assumes "truthy (getenv w (str ''REDDIT_CLIENT_ID''))"
  shows "load_credentials w =
     (if truthy (getenv w (str ''REDDIT_CLIENT_SECRET'')) then (Inr (env_credentials w), w)
      else credentials_not_found w)"
  using assms by (simp add: load_credentials_def merge_secrets_def env_client_id env_client_secret)

lemma load_absent:
  assumes "\<not> truthy (getenv w (str ''REDDIT_CLIENT_ID''))" and "secrets_json w = Absent"
  shows "load_credentials w = credentials_not_found w"
  using assms by (simp add: load_credentials_def merge_secrets_def env_client_id)

lemma load_present:
  assumes "\<not> truthy (getenv w (str ''REDDIT_CLIENT_ID''))" and "secrets_json w = Present stored x"
  shows "load_credentials w =
     (if truthy_at (dict_update (env_credentials w) stored) (str ''client_id'')
         \<and> truthy_at (dict_update (env_credentials w) stored) (str ''client_secret'')
      then (Inr (dict_update (env_credentials w) stored),
            print (case x of None \<Rightarrow> str ''loaded credentials from secrets.json''
                   | Some e \<Rightarrow> str ''error loading secrets.json: '' @ exn_str e) w)
      else credentials_not_found
             (print (case x of None \<Rightarrow> str ''loaded credentials from secrets.json''
                     | Some e \<Rightarrow> str ''error loading secrets.json: '' @ exn_str e) w))"
proof -
  obtain a b where a: "map_of (dict_update (env_credentials w) stored) (str ''client_id'') = Some a"
    and b: "map_of (dict_update (env_credentials w) stored) (str ''client_secret'') = Some b"
    using merged_client_id merged_client_secret by blast
  show ?thesis
    using assms
    by (cases x) (simp_all add: load_credentials_def merge_secrets_def env_client_id a b truthy_at_def)
qed

lemma load_fatal:
  assumes miss: "missing_everywhere w (str ''REDDIT_CLIENT_ID'') (str ''client_id'')
                 \<or> missing_everywhere w (str ''REDDIT_CLIENT_SECRET'') (str ''client_secret'')"
  shows "isl (fst (load_credentials w))
    \<and> secrets_json (snd (load_credentials w)) =
        (if secrets_json w = Absent \<and> open_fails w (str ''secrets.json'') = None
         then Present secrets_template None else secrets_json w)
    \<and> (secrets_json w \<noteq> Absent \<or> open_fails w (str ''secrets.json'') = None \<longrightarrow>
         fst (load_credentials w) =
           Inl (Exn ValueError
             (str ''reddit credentials not found. please set environment variables or create secrets.json file.'')))"
proof (cases "truthy (getenv w (str ''REDDIT_CLIENT_ID''))")
  case True
  with miss have "\<not> truthy (getenv w (str ''REDDIT_CLIENT_SECRET''))"
    by (auto simp: missing_everywhere_def)
  with True have "load_credentials w = credentials_not_found w"
    by (simp add: load_env_id_set)
  then show ?thesis
    using not_found_fails [of w] by simp
next
  case False
  show ?thesis
  proof (cases "secrets_json w")
    case Absent
    with False have "load_credentials w = credentials_not_found w"
      by (simp add: load_absent)
    then show ?thesis
      using not_found_fails [of w] by simp
  next
    case (Present stored x)
    let ?w1 = "print (case x of None \<Rightarrow> str ''loaded credentials from secrets.json''
                     | Some e \<Rightarrow> str ''error loading secrets.json: '' @ exn_str e) w"
    from miss False Present
    have "\<not> (truthy_at (dict_update (env_credentials w) stored) (str ''client_id'')
         \<and> truthy_at (dict_update (env_credentials w) stored) (str ''client_secret''))"
      by (auto simp: missing_everywhere_def truthy_at_def dict_update_lookup env_client_id
          env_client_secret split: option.splits)
    then have "load_credentials w = credentials_not_found ?w1"
      using load_present [OF False Present] by (simp only: if_False)
    then show ?thesis
      using not_found_fails [of ?w1] by (simp add: print_keeps)
  qed
qed

text \<open>
  Claim load_credentials_sources, as the code has it. The credentials are read from the environment, and from
  \<open>secrets.json\<close> only when the client id of the environment is missing or empty and
  the file exists. When the environment holds a client id, the file is not read: the
  result is the environment's dict when it holds a client secret too, and the fatal
  error otherwise, whatever the file holds. When the file is read, every pair it stores
  replaces the environment's value (the value stored last under a key counts, any other
  key keeps the environment's value), also when reading ends with an exception; the
  result is this dict when its client id and client secret are non-empty, and the fatal
  error otherwise. When client id or client secret is missing from both sources, loading
  ends with an exception. The fatal error writes the template exactly when no
  \<open>secrets.json\<close> exists and it can be opened for writing, and it is the \<open>ValueError\<close>
  unless opening the template failed.
\<close>

theorem load_credentials_sources:
  "(truthy (getenv w (str ''REDDIT_CLIENT_ID'')) \<longrightarrow>
      load_credentials w =
        (if truthy (getenv w (str ''REDDIT_CLIENT_SECRET'')) then (Inr (env_credentials w), w)
         else credentials_not_found w))
   \<and> (\<not> truthy (getenv w (str ''REDDIT_CLIENT_ID'')) \<and> secrets_json w = Absent \<longrightarrow>
      load_credentials w = credentials_not_found w)
   \<and> (\<not> truthy (getenv w (str ''REDDIT_CLIENT_ID'')) \<and> secrets_json w = Present stored x \<longrightarrow>
      map_of (dict_update (env_credentials w) stored) k =
        (case map_of (rev stored) k of Some v \<Rightarrow> Some v | None \<Rightarrow> map_of (env_credentials w) k)
      \<and> load_credentials w =
        (if truthy_at (dict_update (env_credentials w) stored) (str ''client_id'')
            \<and> truthy_at (dict_update (env_credentials w) stored) (str ''client_secret'')
         then (Inr (dict_update (env_credentials w) stored),
               print (case x of None \<Rightarrow> str ''loaded credentials from secrets.json''
                      | Some e \<Rightarrow> str ''error loading secrets.json: '' @ exn_str e) w)
         else credentials_not_found
                (print (case x of None \<Rightarrow> str ''loaded credentials from secrets.json''
                        | Some e \<Rightarrow> str ''error loading secrets.json: '' @ exn_str e) w)))
   \<and> (missing_everywhere w (str ''REDDIT_CLIENT_ID'') (str ''client_id'')
        \<or> missing_everywhere w (str ''REDDIT_CLIENT_SECRET'') (str ''client_secret'') \<longrightarrow>
      isl (fst (load_credentials w))
      \<and> secrets_json (snd (load_credentials w)) =
          (if secrets_json w = Absent \<and> open_fails w (str ''secrets.json'') = None
           then Present secrets_template None else secrets_json w)
      \<and> (secrets_json w \<noteq> Absent \<or> open_fails w (str ''secrets.json'') = None \<longrightarrow>
           fst (load_credentials w) =
             Inl (Exn ValueError
               (str ''reddit credentials not found. please set environment variables or create secrets.json file.''))))
   \<and> (isl (fst (credentials_not_found w'))
      \<and> secrets_json (snd (credentials_not_found w')) =
          (if secrets_json w' = Absent \<and> open_fails w' (str ''secrets.json'') = None
           then Present secrets_template None else secrets_json w')
      \<and> (secrets_json w' \<noteq> Absent \<or> open_fails w' (str ''secrets.json'') = None \<longrightarrow>
           fst (credentials_not_found w') =
             Inl (Exn ValueError
               (str ''reddit credentials not found. please set environment variables or create secrets.json file.''))))"
proof (intro conjI impI)
  assume "truthy (getenv w (str ''REDDIT_CLIENT_ID''))"
  then show "load_credentials w =
        (if truthy (getenv w (str ''REDDIT_CLIENT_SECRET'')) then (Inr (env_credentials w), w)
         else credentials_not_found w)"
    by (rule load_env_id_set)
next
  assume "\<not> truthy (getenv w (str ''REDDIT_CLIENT_ID'')) \<and> secrets_json w = Absent"
  then show "load_credentials w = credentials_not_found w"
    by (simp add: load_absent)
next
  show "map_of (dict_update (env_credentials w) stored) k =
        (case map_of (rev stored) k of Some v \<Rightarrow> Some v | None \<Rightarrow> map_of (env_credentials w) k)"
    by (rule dict_update_lookup)
next
  assume "\<not> truthy (getenv w (str ''REDDIT_CLIENT_ID'')) \<and> secrets_json w = Present stored x"
  then show "load_credentials w =
        (if truthy_at (dict_update (env_credentials w) stored) (str ''client_id'')
            \<and> truthy_at (dict_update (env_credentials w) stored) (str ''client_secret'')
         then (Inr (dict_update (env_credentials w) stored),
               print (case x of None \<Rightarrow> str ''loaded credentials from secrets.json''
                      | Some e \<Rightarrow> str ''error loading secrets.json: '' @ exn_str e) w)
         else credentials_not_found
                (print (case x of None \<Rightarrow> str ''loaded credentials from secrets.json''
                        | Some e \<Rightarrow> str ''error loading secrets.json: '' @ exn_str e) w))"
    using load_present [of w stored x] by blast
next
  assume m: "missing_everywhere w (str ''REDDIT_CLIENT_ID'') (str ''client_id'')
        \<or> missing_everywhere w (str ''REDDIT_CLIENT_SECRET'') (str ''client_secret'')"
  from load_fatal [OF m] show "isl (fst (load_credentials w))" by (rule conjunct1)
  from load_fatal [OF m] show "secrets_json (snd (load_credentials w)) =
          (if secrets_json w = Absent \<and> open_fails w (str ''secrets.json'') = None
           then Present secrets_template None else secrets_json w)"
    by (elim conjE)
  assume "secrets_json w \<noteq> Absent \<or> open_fails w (str ''secrets.json'') = None"
  with load_fatal [OF m] show "fst (load_credentials w) =
             Inl (Exn ValueError
               (str ''reddit credentials not found. please set environment variables or create secrets.json file.''))"
    by blast
next
  from not_found_fails [of w'] show "isl (fst (credentials_not_found w'))" by (rule conjunct1)
  from not_found_fails [of w'] show "secrets_json (snd (credentials_not_found w')) =
          (if secrets_json w' = Absent \<and> open_fails w' (str ''secrets.json'') = None
           then Present secrets_template None else secrets_json w')"
    by (elim conjE)
  assume "secrets_json w' \<noteq> Absent \<or> open_fails w' (str ''secrets.json'') = None"
  with not_found_fails [of w'] show "fst (credentials_not_found w') =
             Inl (Exn ValueError
               (str ''reddit credentials not found. please set environment variables or create secrets.json file.''))"
    by blast
qed

text \<open>
  Five worlds: client id and secret in the environment; the client id alone in the
  environment and a secret in the file; neither in the environment and a file that
  holds both; the same file read with an exception after both pairs were stored; no
  file at all.
\<close>

theorem load_credentials_sources_witness:
  "truthy (getenv (mk_world [str ''REDDIT_CLIENT_ID'' \<mapsto> str ''env_id'',
                             str ''REDDIT_CLIENT_SECRET'' \<mapsto> str ''env_secret'']
                            (Present example_secrets None)) (str ''REDDIT_CLIENT_ID''))
   \<and> fst (load_credentials (mk_world [str ''REDDIT_CLIENT_ID'' \<mapsto> str ''env_id'',
                                      str ''REDDIT_CLIENT_SECRET'' \<mapsto> str ''env_secret'']
                                     (Present example_secrets None)))
      = Inr [(str ''client_id'', PStr (str ''env_id'')),
             (str ''client_secret'', PStr (str ''env_secret'')),
             (str ''user_agent'', PStr (str ''RedditCrawler/1.0'')),
             (str ''username'', PNone),
             (str ''password'', PNone)]
   \<and> truthy (getenv (mk_world [str ''REDDIT_CLIENT_ID'' \<mapsto> str ''env_id'']
                              (Present example_secrets None)) (str ''REDDIT_CLIENT_ID''))
   \<and> map_of (rev example_secrets) (str ''client_secret'') = Some (PStr (str ''file_secret''))
   \<and> load_credentials (mk_world [str ''REDDIT_CLIENT_ID'' \<mapsto> str ''env_id'']
                                (Present example_secrets None))
      = (Inl (Exn ValueError
            (str ''reddit credentials not found. please set environment variables or create secrets.json file.'')),
         mk_world [str ''REDDIT_CLIENT_ID'' \<mapsto> str ''env_id''] (Present example_secrets None))
   \<and> \<not> truthy (getenv (mk_world [str ''REDDIT_USERNAME'' \<mapsto> str ''me''] (Present example_secrets None))
                (str ''REDDIT_CLIENT_ID''))
   \<and> fst (load_credentials (mk_world [str ''REDDIT_USERNAME'' \<mapsto> str ''me''] (Present example_secrets None)))
      = Inr [(str ''client_id'', PStr (str ''file_id'')),
             (str ''client_secret'', PStr (str ''file_secret'')),
             (str ''user_agent'', PStr (str ''RedditCrawler/1.0'')),
             (str ''username'', PStr (str ''me'')),
             (str ''password'', PNone)]
   \<and> stdout (snd (load_credentials (mk_world [str ''REDDIT_USERNAME'' \<mapsto> str ''me'']
                                              (Present example_secrets None))))
      = [str ''loaded credentials from secrets.json'']
   \<and> fst (load_credentials (mk_world Map.empty
        (Present example_secrets (Some (Exn ValueError (str ''element #2 has length 1; 2 is required''))))))
      = Inr [(str ''client_id'', PStr (str ''file_id'')),
             (str ''client_secret'', PStr (str ''file_secret'')),
             (str ''user_agent'', PStr (str ''RedditCrawler/1.0'')),
             (str ''username'', PNone),
             (str ''password'', PNone)]
   \<and> stdout (snd (load_credentials (mk_world Map.empty
        (Present example_secrets (Some (Exn ValueError (str ''element #2 has length 1; 2 is required'')))))))
      = [str ''error loading secrets.json: '' @ str ''element #2 has length 1; 2 is required'']
   \<and> \<not> truthy (getenv (mk_world Map.empty Absent) (str ''REDDIT_CLIENT_ID''))
   \<and> load_credentials (mk_world Map.empty Absent) = credentials_not_found (mk_world Map.empty Absent)
   \<and> missing_everywhere (mk_world Map.empty Absent) (str ''REDDIT_CLIENT_ID'') (str ''client_id'')
   \<and> fst (load_credentials (mk_world Map.empty Absent))
      = Inl (Exn ValueError
          (str ''reddit credentials not found. please set environment variables or create secrets.json file.''))
   \<and> secrets_json (snd (load_credentials (mk_world Map.empty Absent))) = Present secrets_template None"
proof -
  let ?wa = "mk_world [str ''REDDIT_CLIENT_ID'' \<mapsto> str ''env_id'',
                       str ''REDDIT_CLIENT_SECRET'' \<mapsto> str ''env_secret''] (Present example_secrets None)"
  let ?wb = "mk_world [str ''REDDIT_CLIENT_ID'' \<mapsto> str ''env_id''] (Present example_secrets None)"
  let ?wc = "mk_world [str ''REDDIT_USERNAME'' \<mapsto> str ''me''] (Present example_secrets None)"
  let ?e = "Exn ValueError (str ''element #2 has length 1; 2 is required'')"
  let ?wd = "mk_world Map.empty (Present example_secrets (Some ?e))"
  let ?we = "mk_world Map.empty Absent"
  have ea: "truthy (getenv ?wa (str ''REDDIT_CLIENT_ID''))"
    and eb: "truthy (getenv ?wb (str ''REDDIT_CLIENT_ID''))"
    by (simp_all add: getenv_def mk_world_def str_eq_Nil)
  have ec: "\<not> truthy (getenv ?wc (str ''REDDIT_CLIENT_ID'')) \<and> secrets_json ?wc = Present example_secrets None"
    and ed: "\<not> truthy (getenv ?wd (str ''REDDIT_CLIENT_ID'')) \<and> secrets_json ?wd = Present example_secrets (Some ?e)"
    and ee: "\<not> truthy (getenv ?we (str ''REDDIT_CLIENT_ID'')) \<and> secrets_json ?we = Absent"
    by (simp_all add: getenv_def mk_world_def str_inject)
  have me: "missing_everywhere ?we (str ''REDDIT_CLIENT_ID'') (str ''client_id'')"
    by (simp add: missing_everywhere_def getenv_def mk_world_def)
  have ms: "map_of (rev example_secrets) (str ''client_secret'') = Some (PStr (str ''file_secret''))"
    by (simp add: example_secrets_def str_inject)
  note ra = load_credentials_sources [where w = ?wa, THEN conjunct1, THEN mp, OF ea]
  note rb = load_credentials_sources [where w = ?wb, THEN conjunct1, THEN mp, OF eb]
  note rc = load_credentials_sources [where w = ?wc and stored = example_secrets and x = None,
      THEN conjunct2, THEN conjunct2, THEN conjunct1, THEN mp, OF ec, THEN conjunct2]
  note rd = load_credentials_sources [where w = ?wd and stored = example_secrets and x = "Some ?e",
      THEN conjunct2, THEN conjunct2, THEN conjunct1, THEN mp, OF ed, THEN conjunct2]
  note re = load_credentials_sources [where w = ?we, THEN conjunct2, THEN conjunct1, THEN mp, OF ee]
  note rf = load_credentials_sources [where w = ?we, THEN conjunct2, THEN conjunct2, THEN conjunct2, THEN conjunct1,
      THEN mp, OF disjI1, OF me]
  have a: "fst (load_credentials ?wa)
      = Inr [(str ''client_id'', PStr (str ''env_id'')),
             (str ''client_secret'', PStr (str ''env_secret'')),
             (str ''user_agent'', PStr (str ''RedditCrawler/1.0'')),
             (str ''username'', PNone),
             (str ''password'', PNone)]"
    unfolding ra
    by (simp add: env_credentials_def getenv_def getenv_default_def mk_world_def str_inject str_eq_Nil)
  have b: "load_credentials ?wb = (Inl (Exn ValueError
            (str ''reddit credentials not found. please set environment variables or create secrets.json file.'')), ?wb)"
    unfolding rb
    by (simp add: credentials_not_found_def create_secrets_template_def getenv_def mk_world_def
        str_inject)
  have c: "fst (load_credentials ?wc)
      = Inr [(str ''client_id'', PStr (str ''file_id'')),
             (str ''client_secret'', PStr (str ''file_secret'')),
             (str ''user_agent'', PStr (str ''RedditCrawler/1.0'')),
             (str ''username'', PStr (str ''me'')),
             (str ''password'', PNone)]
     \<and> stdout (snd (load_credentials ?wc)) = [str ''loaded credentials from secrets.json'']"
    unfolding rc
    by (simp add: env_credentials_def getenv_def getenv_default_def mk_world_def str_inject str_eq_Nil
        example_secrets_def truthy_at_def print_def)
  have d: "fst (load_credentials ?wd)
      = Inr [(str ''client_id'', PStr (str ''file_id'')),
             (str ''client_secret'', PStr (str ''file_secret'')),
             (str ''user_agent'', PStr (str ''RedditCrawler/1.0'')),
             (str ''username'', PNone),
             (str ''password'', PNone)]
     \<and> stdout (snd (load_credentials ?wd))
        = [str ''error loading secrets.json: '' @ str ''element #2 has length 1; 2 is required'']"
    unfolding rd
    by (simp add: env_credentials_def getenv_def getenv_default_def mk_world_def str_inject str_eq_Nil
        example_secrets_def truthy_at_def print_def)
  have oe: "secrets_json ?we = Absent \<and> open_fails ?we (str ''secrets.json'') = None"
    by (simp add: mk_world_def)
  have f: "fst (load_credentials ?we)
      = Inl (Exn ValueError
          (str ''reddit credentials not found. please set environment variables or create secrets.json file.''))
     \<and> secrets_json (snd (load_credentials ?we)) = Present secrets_template None"
    using rf oe by simp
  from ea a eb ms b ec c d ee re me f show ?thesis
    by (simp only: simp_thms)
qed

text \<open>
  Claim load_credentials_sources as stated fails twice. With the client secret set in the environment and in
  the file, and the client id in the file only, the file's client secret is loaded, not
  the environment's. With an empty environment and a secrets file that holds the empty
  object, the required fields are missing from both sources and no template is written.
\<close>

theorem load_credentials_file_overrides_environment:
  "environ (mk_world [str ''REDDIT_CLIENT_SECRET'' \<mapsto> str ''env_secret''] (Present example_secrets None))
     (str ''REDDIT_CLIENT_SECRET'') = Some (str ''env_secret'')
   \<and> map_of example_secrets (str ''client_secret'') = Some (PStr (str ''file_secret''))
   \<and> fst (load_credentials (mk_world [str ''REDDIT_CLIENT_SECRET'' \<mapsto> str ''env_secret'']
                              (Present example_secrets None)))
      = Inr [(str ''client_id'', PStr (str ''file_id'')),
             (str ''client_secret'', PStr (str ''file_secret'')),
             (str ''user_agent'', PStr (str ''RedditCrawler/1.0'')),
             (str ''username'', PNone),
             (str ''password'', PNone)]
   \<and> missing_everywhere (mk_world Map.empty (Present [] None)) (str ''REDDIT_CLIENT_ID'') (str ''client_id'')
   \<and> secrets_json (snd (load_credentials (mk_world Map.empty (Present [] None)))) = Present [] None"
  by (simp add: load_credentials_def merge_secrets_def env_credentials_def getenv_def
        getenv_default_def mk_world_def str_inject example_secrets_def missing_everywhere_def
        credentials_not_found_def create_secrets_template_def print_def str_eq_Nil)

end
